theory Spec2Isabelle
  imports Main
begin

section \<open>JavaScript string primitives used by gitService.ts\<close>

text \<open>
  A JavaScript string is modelled as a \<open>string\<close>, one \<open>char\<close> per code unit below 256.
  \<open>js_space\<close> is the part of the class \<open>\s\<close> (and of what \<open>String.prototype.trim\<close>
  strips) that lies in that range: tab, line feed, vertical tab, form feed, carriage
  return, space and the no-break space.
\<close>

definition js_space :: "char \<Rightarrow> bool" where
  "js_space c = (of_char c \<in> {9::nat, 10, 11, 12, 13, 32, 160})"

definition trim :: "string \<Rightarrow> string" where
  "trim s = rev (dropWhile js_space (rev (dropWhile js_space s)))"

fun startsWith :: "string \<Rightarrow> string \<Rightarrow> bool" where
  "startsWith s [] = True"
| "startsWith [] (p # ps) = False"
| "startsWith (c # cs) (p # ps) = (c = p \<and> startsWith cs ps)"

fun str_includes :: "string \<Rightarrow> string \<Rightarrow> bool" where
  "str_includes [] needle = (needle = [])"
| "str_includes (c # cs) needle = (startsWith (c # cs) needle \<or> str_includes cs needle)"

text \<open>\<open>indexOf\<close> returns \<open>None\<close> where JavaScript returns \<open>-1\<close>.\<close>

fun indexOf :: "string \<Rightarrow> char \<Rightarrow> nat option" where
  "indexOf [] ch = None"
| "indexOf (c # cs) ch =
     (if c = ch then Some 0 else (case indexOf cs ch of None \<Rightarrow> None | Some i \<Rightarrow> Some (Suc i)))"

text \<open>\<open>str_split sep s\<close> is \<open>s.split(sep)\<close> for a one-character separator: never empty.\<close>

fun str_split :: "char \<Rightarrow> string \<Rightarrow> string list" where
  "str_split sep [] = [[]]"
| "str_split sep (c # cs) =
     (if c = sep then [] # str_split sep cs
      else (case str_split sep cs of [] \<Rightarrow> [[c]] | w # ws \<Rightarrow> (c # w) # ws))"

definition toLowerChar :: "char \<Rightarrow> char" where
  "toLowerChar c =
     (let n = (of_char c :: nat) in if 65 \<le> n \<and> n \<le> 90 then char_of (n + 32) else c)"

definition toLowerCase :: "string \<Rightarrow> string" where
  "toLowerCase s = map toLowerChar s"

text \<open>
  \<open>replace_runs P r s\<close> is \<open>s.replace(/[P]+/g, r)\<close>: every maximal run of characters
  satisfying \<open>P\<close> becomes the single character \<open>r\<close>. The flag says whether the
  previous character belonged to a run.
\<close>

fun replace_runs_from :: "(char \<Rightarrow> bool) \<Rightarrow> char \<Rightarrow> bool \<Rightarrow> string \<Rightarrow> string" where
  "replace_runs_from P r inrun [] = []"
| "replace_runs_from P r inrun (c # cs) =
     (if P c then (if inrun then replace_runs_from P r True cs
                   else r # replace_runs_from P r True cs)
      else c # replace_runs_from P r False cs)"

definition replace_runs :: "(char \<Rightarrow> bool) \<Rightarrow> char \<Rightarrow> string \<Rightarrow> string" where
  "replace_runs P r s = replace_runs_from P r False s"

text \<open>\<open>strip_prefix p s\<close> is \<open>s.replace(/^p/, '')\<close> for a literal \<open>p\<close>.\<close>

definition strip_prefix :: "string \<Rightarrow> string \<Rightarrow> string" where
  "strip_prefix p s = (if startsWith s p then drop (length p) s else s)"

section \<open>Status mapping of the structured adapter\<close>

text \<open>
  The table of \<open>mapStatus\<close>, keyed by the numeric value of the adapter's \<open>Status\<close> enum.
  The source's comments name the keys: 0 INDEX_MODIFIED, 1 INDEX_ADDED, 2 INDEX_DELETED,
  3 INDEX_RENAMED, 4 INDEX_COPIED, 5 MODIFIED, 6 DELETED, 7 UNTRACKED, 8 IGNORED,
  9 INTENT_TO_ADD, 10 INTENT_TO_RENAME, 11 TYPE_CHANGED, 12 ADDED_BY_US, 13 ADDED_BY_THEM,
  14 DELETED_BY_US, 15 DELETED_BY_THEM, 16 BOTH_ADDED, 17 BOTH_DELETED, 18 BOTH_MODIFIED.
\<close>

definition statusMap :: "(nat \<times> string) list" where
  "statusMap =
     [(0, ''M''), (1, ''A''), (2, ''D''), (3, ''R''), (4, ''C''), (5, ''M''), (6, ''D''),
      (7, ''?''), (8, ''!''), (9, ''A''), (10, ''R''), (11, ''T''), (12, ''U''), (13, ''U''),
      (14, ''U''), (15, ''U''), (16, ''U''), (17, ''U''), (18, ''U'')]"

text \<open>\<open>statusMap[status] || ' '\<close>: a missing key and an empty entry both give a space.\<close>

definition mapStatus :: "nat \<Rightarrow> string" where
  "mapStatus status =
     (case map_of statusMap status of
        None \<Rightarrow> '' ''
      | Some code \<Rightarrow> (if code = [] then '' '' else code))"

section \<open>Worktree names\<close>

definition slug_allowed :: "char \<Rightarrow> bool" where
  "slug_allowed c =
     (let n = (of_char c :: nat) in
        (65 \<le> n \<and> n \<le> 90) \<or> (97 \<le> n \<and> n \<le> 122) \<or> (48 \<le> n \<and> n \<le> 57)
        \<or> c = CHR ''.'' \<or> c = CHR ''_'' \<or> c = CHR ''-'')"

definition is_slash :: "char \<Rightarrow> bool" where
  "is_slash c = (c = CHR ''/'')"

definition is_hyphen :: "char \<Rightarrow> bool" where
  "is_hyphen c = (c = CHR ''-'')"

text \<open>
  \<open>slugWorktreeName\<close>, one definition per step of the source's chain, in its order:
  trim; drop a leading \<open>refs/heads/\<close>; drop a leading \<open>heads/\<close>; runs of white space to
  a hyphen; drop leading and trailing slashes; remaining slashes to hyphens; runs of
  characters outside \<open>[A-Za-z0-9._-]\<close> to a hyphen; runs of hyphens to one hyphen; drop
  leading hyphens; drop trailing hyphens; keep the first 80 characters.
\<close>

definition strip_slashes :: "string \<Rightarrow> string" where
  "strip_slashes s = rev (dropWhile is_slash (rev (dropWhile is_slash s)))"

definition slashes_to_hyphens :: "string \<Rightarrow> string" where
  "slashes_to_hyphens s = map (\<lambda>c. if c = CHR ''/'' then CHR ''-'' else c) s"

definition strip_leading_hyphens :: "string \<Rightarrow> string" where
  "strip_leading_hyphens s = dropWhile is_hyphen s"

definition strip_trailing_hyphens :: "string \<Rightarrow> string" where
  "strip_trailing_hyphens s = rev (dropWhile is_hyphen (rev s))"

definition slugWorktreeName :: "string \<Rightarrow> string" where
  "slugWorktreeName v =
     (let s1 = trim v;
          s2 = strip_prefix ''refs/heads/'' s1;
          s3 = strip_prefix ''heads/'' s2;
          s4 = replace_runs js_space (CHR ''-'') s3;
          s5 = strip_slashes s4;
          s6 = slashes_to_hyphens s5;
          s7 = replace_runs (\<lambda>c. \<not> slug_allowed c) (CHR ''-'') s6;
          s8 = replace_runs is_hyphen (CHR ''-'') s7;
          s9 = strip_leading_hyphens s8;
          s10 = strip_trailing_hyphens s9
      in take 80 s10)"

section \<open>Remote branch references\<close>

record remote_branch_ref =
  remote :: string
  branch :: string
  remoteRef :: string
  fullRef :: string

text \<open>
  The tail both returning branches of \<open>parseRemoteBranchRef\<close> share: it splits
  \<open>rest\<close> at its first slash, and gives \<open>null\<close> when \<open>slashIndex <= 0\<close> (no slash, or a
  slash in front) or \<open>slashIndex === rest.length - 1\<close>.
\<close>

definition splitRemoteRef :: "string \<Rightarrow> remote_branch_ref option" where
  "splitRemoteRef rest =
     (case indexOf rest (CHR ''/'') of
        None \<Rightarrow> None
      | Some slashIndex \<Rightarrow>
          if slashIndex = 0 \<or> Suc slashIndex = length rest then None
          else Some \<lparr>remote = take slashIndex rest, branch = drop (Suc slashIndex) rest,
                      remoteRef = rest, fullRef = ''refs/remotes/'' @ rest\<rparr>)"


lemma dropWhile_hd_id: "xs \<noteq> [] \<Longrightarrow> \<not> P (hd xs) \<Longrightarrow> dropWhile P xs = xs"
  by (cases xs) auto

lemma trim_last: "trim v \<noteq> [] \<Longrightarrow> \<not> js_space (last (trim v))"
  unfolding trim_def
  by (metis hd_dropWhile last_rev rev_is_Nil_conv)


lemma trim_fixed:
  assumes "s \<noteq> []" "\<not> js_space (hd s)" "\<not> js_space (last s)"
  shows "trim s = s"
proof -
  have 1: "dropWhile js_space s = s" using assms by (simp add: dropWhile_hd_id)
  have "rev s \<noteq> []" using assms by simp
  moreover have "hd (rev s) = last s" using assms by (simp add: hd_rev)
  ultimately have 2: "dropWhile js_space (rev s) = rev s"
    using assms(3) by (simp add: dropWhile_hd_id)
  show ?thesis by (simp add: trim_def 1 2)
qed

lemma startsWith_append: "startsWith (p @ s) (p @ q) = startsWith s q"
  by (induction p) auto

lemma trim_refs_prefix:
  assumes "trim v \<noteq> []"
  shows "trim (''refs/'' @ trim v) = ''refs/'' @ trim v"
proof (rule trim_fixed)
  show "''refs/'' @ trim v \<noteq> []" by simp
  show "\<not> js_space (hd (''refs/'' @ trim v))" by (simp add: js_space_def)
  show "\<not> js_space (last (''refs/'' @ trim v))" using assms trim_last by simp
qed

function parseRemoteBranchRef :: "string \<Rightarrow> remote_branch_ref option" where
  "parseRemoteBranchRef v =
     (let trimmed = trim v in
        if trimmed = [] then None
        else if startsWith trimmed ''refs/remotes/''
          then splitRemoteRef (drop (length ''refs/remotes/'') trimmed)
        else if startsWith trimmed ''remotes/''
          then parseRemoteBranchRef (''refs/'' @ trimmed)
        else splitRemoteRef trimmed)"
  by pat_completeness auto
termination
proof (relation "measure (\<lambda>v. if startsWith (trim v) ''refs/remotes/'' then 0 else 1)")
  show "wf (measure (\<lambda>v. if startsWith (trim v) ''refs/remotes/'' then 0 else 1))" by simp
next
  fix v x
  assume a: "x = trim v" "x \<noteq> []" "\<not> startsWith x ''refs/remotes/''" "startsWith x ''remotes/''"
  have "trim (''refs/'' @ x) = ''refs/'' @ x" using a trim_refs_prefix by simp
  moreover have "startsWith (''refs/'' @ x) (''refs/'' @ ''remotes/'')"
    using a(4) by (simp only: startsWith_append)
  ultimately show "(''refs/'' @ x, v) \<in> measure (\<lambda>v. if startsWith (trim v) ''refs/remotes/'' then 0 else 1)"
    using a by simp
qed

declare parseRemoteBranchRef.simps [simp del]

section \<open>The environment of the git service\<close>

text \<open>
  Everything the service reaches outside itself is explicit. The filesystem is a map
  from paths to nodes; \<open>denied\<close> holds the paths on which the operating system refuses
  creation, writing and removal (a read-only or protected location). The git binary is
  not modelled: each invocation is appended to \<open>gitLog\<close>, and what the binary answers is
  a parameter of the model (\<open>git\<close> below), a function of the state of the world at the
  call, so that nothing is assumed about git beyond determinism. \<open>adapterLog\<close> holds the
  configuration writes accepted by the structured repository adapter, \<open>consoleLog\<close> the
  messages of \<open>console.warn\<close> and \<open>console.error\<close>, and \<open>queued\<close> the start scripts handed to
  \<open>setTimeout\<close> (directory, project id, start command), which run after the call returned.
\<close>

datatype node = Dir | File string

record exec_result =
  stdout :: string
  stderr :: string
  exitCode :: int

type_synonym git_call = "string \<times> string list"

record world =
  fs :: "string \<Rightarrow> node option"
  denied :: "string \<Rightarrow> bool"
  gitLog :: "git_call list"
  adapterLog :: "(string \<times> string) list"
  consoleLog :: "string list"
  queued :: "(string \<times> string \<times> string) list"

text \<open>The record a \<open>JSON.parse\<close> of a project file yields, each key as far as it is present
  and of the expected type, and the record \<open>updateProjectSandboxes\<close> writes back.\<close>

record parsed_project =
  pp_id :: "string option"
  pp_worktree :: "string option"
  pp_vcs :: "string option"
  pp_sandboxes :: "string list option"
  pp_created :: "nat option"

record project =
  p_id :: string
  p_worktree :: string
  p_vcs :: string
  p_sandboxes :: "string list"
  p_created :: nat
  p_updated :: nat

text \<open>
  The parameters: the platform (\<open>process.platform === 'win32'\<close>, \<open>os.homedir()\<close>,
  \<open>process.env.XDG_DATA_HOME\<close>, empty when unset), Node's \<open>path\<close> module, \<open>realpath\<close>
  (\<open>None\<close> when it rejects), \<open>String.prototype.localeCompare\<close> (as "sorts before or
  equal"), \<open>JSON.parse\<close> of a project file (\<open>None\<close> when it throws or the value is no
  object), \<open>JSON.stringify\<close>, \<open>Date.now()\<close>, the values of \<open>Math.random\<close> (\<open>draws i\<close> are the
  two numbers drawn for the candidate name of index \<open>i\<close>, each reduced to an index into its
  word list), and the answers of the git binary.
\<close>

record env =
  isWindows :: bool
  homedir :: string
  xdgDataHome :: string
  path_join :: "string list \<Rightarrow> string"
  path_resolve :: "string list \<Rightarrow> string"
  path_dirname :: "string \<Rightarrow> string"
  path_normalize :: "string \<Rightarrow> string"
  realpath :: "world \<Rightarrow> string \<Rightarrow> string option"
  locale_le :: "string \<Rightarrow> string \<Rightarrow> bool"
  json_parse :: "string \<Rightarrow> parsed_project option"
  json_stringify :: "project \<Rightarrow> string"
  now :: nat
  draws :: "nat \<Rightarrow> nat \<times> nat"
  git :: "world \<Rightarrow> git_call \<Rightarrow> exec_result"

text \<open>
  A JavaScript exception is an \<open>Error\<close> with its message. An asynchronous function of
  the service is a function from the world to its outcome (\<open>Inl\<close> what it throws, \<open>Inr\<close>
  what it returns) and the world it leaves behind.
\<close>

datatype error = Error string

type_synonym 'a io = "world \<Rightarrow> (error + 'a) \<times> world"

definition io_ret :: "'a \<Rightarrow> 'a io" where
  "io_ret x = (\<lambda>w. (Inr x, w))"

definition io_throw :: "error \<Rightarrow> 'a io" where
  "io_throw e = (\<lambda>w. (Inl e, w))"

definition io_bind :: "'a io \<Rightarrow> ('a \<Rightarrow> 'b io) \<Rightarrow> 'b io" where
  "io_bind m f = (\<lambda>w. case m w of (Inl e, w') \<Rightarrow> (Inl e, w') | (Inr x, w') \<Rightarrow> f x w')"

definition io_catch :: "'a io \<Rightarrow> (error \<Rightarrow> 'a io) \<Rightarrow> 'a io" where
  "io_catch m h = (\<lambda>w. case m w of (Inl e, w') \<Rightarrow> h e w' | (Inr x, w') \<Rightarrow> (Inr x, w'))"

definition console_log :: "string \<Rightarrow> unit io" where
  "console_log msg = (\<lambda>w. (Inr (), w\<lparr>consoleLog := consoleLog w @ [msg]\<rparr>))"

definition error_message :: "error \<Rightarrow> string" where
  "error_message e = (case e of Error msg \<Rightarrow> msg)"

subsection \<open>Filesystem calls\<close>

text \<open>
  \<open>ancestors\<close> lists the parents of a path, by \<open>path.dirname\<close> until it no longer changes
  (at most as many as the path has characters); \<open>is_under E p q\<close> says that
  \<open>q\<close> lies below \<open>p\<close>. \<open>mkdir\<close> is \<open>fs.promises.mkdir(p, {recursive: true})\<close>: it fails on
  a denied path and where \<open>p\<close> or a parent is a file. \<open>writeFile\<close> fails on a denied path,
  on a directory and where the parent is no directory; these are the failures of opening
  the file, so a failed write leaves the file as it was (a failure in the middle of a
  write is not modelled). \<open>rm\<close> is
  \<open>fs.promises.rm(p, {recursive: true, force: true})\<close>: a missing path is no error.
\<close>

fun ancestors_within :: "env \<Rightarrow> string \<Rightarrow> string \<Rightarrow> string list" where
  "ancestors_within E [] p = []"
| "ancestors_within E (c # fuel) p =
     (let parent = path_dirname E p
      in if parent = p then [] else parent # ancestors_within E fuel parent)"

definition ancestors :: "env \<Rightarrow> string \<Rightarrow> string list" where
  "ancestors E p = ancestors_within E p p"

definition is_under :: "env \<Rightarrow> string \<Rightarrow> string \<Rightarrow> bool" where
  "is_under E p q = (q \<noteq> p \<and> p \<in> set (ancestors E q))"

definition is_file :: "world \<Rightarrow> string \<Rightarrow> bool" where
  "is_file w p = (case fs w p of Some (File c) \<Rightarrow> True | _ \<Rightarrow> False)"

definition stat :: "string \<Rightarrow> unit io" where
  "stat p = (\<lambda>w. if fs w p = None then (Inl (Error ''ENOENT''), w) else (Inr (), w))"

definition readFile :: "string \<Rightarrow> string io" where
  "readFile p = (\<lambda>w. case fs w p of
       Some (File c) \<Rightarrow> (Inr c, w)
     | Some Dir \<Rightarrow> (Inl (Error ''EISDIR''), w)
     | None \<Rightarrow> (Inl (Error ''ENOENT''), w))"

definition mkdir :: "env \<Rightarrow> string \<Rightarrow> unit io" where
  "mkdir E p = (\<lambda>w.
     if fs w p = Some Dir then (Inr (), w)
     else if denied w p then (Inl (Error ''EACCES''), w)
     else if is_file w p \<or> list_ex (is_file w) (ancestors E p) then (Inl (Error ''EEXIST''), w)
     else (Inr (), w\<lparr>fs := (\<lambda>q. if q = p \<or> is_under E q p then Some Dir else fs w q)\<rparr>))"

definition writeFile :: "env \<Rightarrow> string \<Rightarrow> string \<Rightarrow> unit io" where
  "writeFile E p content = (\<lambda>w.
     if denied w p then (Inl (Error ''EACCES''), w)
     else if fs w p = Some Dir then (Inl (Error ''EISDIR''), w)
     else if fs w (path_dirname E p) \<noteq> Some Dir then (Inl (Error ''ENOENT''), w)
     else (Inr (), w\<lparr>fs := (fs w)(p \<mapsto> File content)\<rparr>))"

definition rm :: "env \<Rightarrow> string \<Rightarrow> unit io" where
  "rm E p = (\<lambda>w.
     if fs w p = None then (Inr (), w)
     else if denied w p then (Inl (Error ''EACCES''), w)
     else (Inr (), w\<lparr>fs := (\<lambda>q. if q = p \<or> is_under E p q then None else fs w q)\<rparr>))"

definition checkPathExists :: "string \<Rightarrow> bool io" where
  "checkPathExists targetPath =
     io_catch (io_bind (stat targetPath) (\<lambda>_. io_ret True)) (\<lambda>_. io_ret False)"

subsection \<open>Running git\<close>

definition normalizePath :: "env \<Rightarrow> string \<Rightarrow> string" where
  "normalizePath E p =
     (let normalized = (if startsWith p ''~'' then path_join E [homedir E, drop 1 p] else p)
      in map (\<lambda>c. if c = CHR 0x5C then CHR ''/'' else c) normalized)"

text \<open>
  \<open>execGit\<close> never throws: a spawn failure is an answer with exit code 1. What the git
  binary itself writes (refs, objects, worktrees) is not part of \<open>fs\<close>, which holds what
  the filesystem calls of the service see and write: a git call shows in the log, and in
  the later answers of git, only.
\<close>

definition execGit :: "env \<Rightarrow> string list \<Rightarrow> string \<Rightarrow> exec_result io" where
  "execGit E args cwd = (\<lambda>w.
     let call = (normalizePath E cwd, args)
     in (Inr (git E w call), w\<lparr>gitLog := gitLog w @ [call]\<rparr>))"

section \<open>Merge and rebase\<close>

record merge_result =
  success :: bool
  conflict :: "bool option"
  conflictFiles :: "string list option"

text \<open>The conflicting paths both functions read from \<open>git status --porcelain\<close>.\<close>

definition conflictFilesOf :: "string \<Rightarrow> string list" where
  "conflictFilesOf out =
     map (\<lambda>line. trim (drop 3 line))
       (filter (\<lambda>line. startsWith line ''UU'' \<or> startsWith line ''AA'' \<or> startsWith line ''DD'')
         (str_split (CHR 0x0A) out))"

definition rebase :: "env \<Rightarrow> string \<Rightarrow> string \<Rightarrow> merge_result io" where
  "rebase E directory onto =
     io_bind (execGit E [''rebase'', onto] directory) (\<lambda>result.
       if exitCode result = 0
       then io_ret \<lparr>success = True, conflict = Some False, conflictFiles = None\<rparr>
       else
         let output = toLowerCase (stdout result @ stderr result);
             isConflict = (str_includes output ''conflict''
                           \<or> str_includes output ''could not apply''
                           \<or> str_includes output ''merge conflict'')
         in if isConflict
            then io_bind (execGit E [''status'', ''--porcelain''] directory) (\<lambda>statusResult.
                   io_ret \<lparr>success = False, conflict = Some True,
                            conflictFiles = Some (conflictFilesOf (stdout statusResult))\<rparr>)
            else io_throw (Error (if stderr result \<noteq> [] then stderr result else ''Rebase failed'')))"

definition merge :: "env \<Rightarrow> string \<Rightarrow> string \<Rightarrow> merge_result io" where
  "merge E directory branchName =
     io_bind (execGit E [''merge'', branchName] directory) (\<lambda>result.
       if exitCode result = 0
       then io_ret \<lparr>success = True, conflict = Some False, conflictFiles = None\<rparr>
       else
         let output = toLowerCase (stdout result @ stderr result);
             isConflict = (str_includes output ''conflict''
                           \<or> str_includes output ''merge conflict''
                           \<or> str_includes output ''automatic merge failed'')
         in if isConflict
            then io_bind (execGit E [''status'', ''--porcelain''] directory) (\<lambda>statusResult.
                   io_ret \<lparr>success = False, conflict = Some True,
                            conflictFiles = Some (conflictFilesOf (stdout statusResult))\<rparr>)
            else io_throw (Error (if stderr result \<noteq> [] then stderr result else ''Merge failed'')))"

section \<open>Git identity\<close>

text \<open>
  The characters of the source's \<open>dangerousChars\<close> class, in its order: backtick, dollar,
  backslash, exclamation mark, double quote, single quote, semicolon, ampersand, bar,
  angle brackets, parentheses, braces, square brackets, star, question mark, hash, tilde.
\<close>

definition dangerousChars :: "char list" where
  "dangerousChars =
     [CHR 0x60, CHR ''$'', CHR 0x5C, CHR ''!'', CHR 0x22, CHR 0x27, CHR '';'', CHR ''&'',
      CHR ''|'', CHR ''<'', CHR ''>'', CHR ''('', CHR '')'', CHR ''{'', CHR ''}'', CHR ''['',
      CHR '']'', CHR ''*'', CHR ''?'', CHR ''#'', CHR ''~'']"

definition is_letter :: "char \<Rightarrow> bool" where
  "is_letter c = (let n = (of_char c :: nat) in (65 \<le> n \<and> n \<le> 90) \<or> (97 \<le> n \<and> n \<le> 122))"

text \<open>The Windows branch: backslashes to slashes, then \<open>C:/path\<close> to \<open>/c/path\<close>.\<close>

definition msysPath :: "string \<Rightarrow> string" where
  "msysPath sshKeyPath =
     (let unixPath = map (\<lambda>c. if c = CHR 0x5C then CHR ''/'' else c) sshKeyPath
      in case unixPath of
           d # c1 # c2 # rest \<Rightarrow>
             if is_letter d \<and> c1 = CHR '':'' \<and> c2 = CHR ''/''
             then CHR ''/'' # toLowerChar d # drop 2 unixPath
             else unixPath
         | _ \<Rightarrow> unixPath)"

definition escapeSshKeyPath :: "env \<Rightarrow> string \<Rightarrow> error + string" where
  "escapeSshKeyPath E sshKeyPath =
     (if list_ex (\<lambda>c. c \<in> set dangerousChars) sshKeyPath
      then Inl (Error (''SSH key path contains invalid characters: '' @ sshKeyPath))
      else if isWindows E
        then Inr ([CHR 0x27] @ msysPath sshKeyPath @ [CHR 0x27])
        else Inr ([CHR 0x27]
                  @ concat (map (\<lambda>c. if c = CHR 0x27 then [CHR 0x27, CHR 0x5C, CHR 0x27, CHR 0x27] else [c])
                             sshKeyPath)
                  @ [CHR 0x27]))"

definition buildSshCommand :: "env \<Rightarrow> string \<Rightarrow> error + string" where
  "buildSshCommand E sshKeyPath =
     (case escapeSshKeyPath E sshKeyPath of
        Inl e \<Rightarrow> Inl e
      | Inr escapedPath \<Rightarrow> Inr (''ssh -i '' @ escapedPath @ '' -o IdentitiesOnly=yes''))"

text \<open>
  The repository the adapter gave for the directory (\<open>getRepository\<close>), if any: all the
  service needs of it here is whether a \<open>setConfig\<close> of a key and value throws.
\<close>

record repo_handle =
  setConfigThrows :: "string \<Rightarrow> string \<Rightarrow> bool"

definition repoSetConfig :: "repo_handle \<Rightarrow> string \<Rightarrow> string \<Rightarrow> unit io" where
  "repoSetConfig repo key v = (\<lambda>w.
     if setConfigThrows repo key v then (Inl (Error ''setConfig failed''), w)
     else (Inr (), w\<lparr>adapterLog := adapterLog w @ [(key, v)]\<rparr>))"

text \<open>
  \<open>setGitIdentity\<close>. The SSH command is built first, and \<open>buildSshCommand\<close> throws out
  of the function; a throw of the adapter is caught, logged, and followed by the raw
  git calls, whose exit codes are not looked at.
\<close>

definition setGitIdentityRaw :: "env \<Rightarrow> string \<Rightarrow> string \<Rightarrow> string \<Rightarrow> string option \<Rightarrow> bool io" where
  "setGitIdentityRaw E directory userName userEmail sshCommand =
     io_bind (execGit E [''config'', ''user.name'', userName] directory) (\<lambda>_.
     io_bind (execGit E [''config'', ''user.email'', userEmail] directory) (\<lambda>_.
     io_bind (case sshCommand of
                Some cmd \<Rightarrow> io_bind (execGit E [''config'', ''core.sshCommand'', cmd] directory) (\<lambda>_. io_ret ())
              | None \<Rightarrow> io_ret ()) (\<lambda>_.
     io_ret True)))"

definition setGitIdentity ::
  "env \<Rightarrow> repo_handle option \<Rightarrow> string \<Rightarrow> string \<Rightarrow> string \<Rightarrow> string option \<Rightarrow> bool io" where
  "setGitIdentity E repo directory userName userEmail sshKey =
     (case (case sshKey of
              None \<Rightarrow> Inr None
            | Some k \<Rightarrow> if k = [] then Inr None
                        else (case buildSshCommand E k of Inl e \<Rightarrow> Inl e | Inr c \<Rightarrow> Inr (Some c))) of
        Inl e \<Rightarrow> io_throw e
      | Inr sshCommand \<Rightarrow>
          (case repo of
             Some r \<Rightarrow>
               io_catch
                 (io_bind (repoSetConfig r ''user.name'' userName) (\<lambda>_.
                  io_bind (repoSetConfig r ''user.email'' userEmail) (\<lambda>_.
                  io_bind (case sshCommand of
                             Some cmd \<Rightarrow> repoSetConfig r ''core.sshCommand'' cmd
                           | None \<Rightarrow> io_ret ()) (\<lambda>_.
                  io_ret True))))
                 (\<lambda>e. io_bind (console_log (''[GitService] Failed to set identity: '' @ error_message e)) (\<lambda>_.
                      setGitIdentityRaw E directory userName userEmail sshCommand))
           | None \<Rightarrow> setGitIdentityRaw E directory userName userEmail sshCommand))"

section \<open>A POSIX instance of the parameters\<close>

text \<open>
  The concrete examples below run the service in this environment: paths are joined
  with a slash, \<open>realpath\<close> is the identity, strings compare by code unit, and a project
  file holds the id, the primary worktree, the version control system and the
  sandboxes, one per line. The answers of git are given with each example.
\<close>

definition join_slash :: "string list \<Rightarrow> string" where
  "join_slash parts =
     (case filter (\<lambda>p. p \<noteq> []) parts of
        [] \<Rightarrow> ''.''
      | p # ps \<Rightarrow> foldl (\<lambda>acc q. acc @ ''/'' @ q) p ps)"

definition resolve_slash :: "string list \<Rightarrow> string" where
  "resolve_slash parts =
     foldl (\<lambda>acc q. if q = [] then acc else if startsWith q ''/'' then q else acc @ ''/'' @ q) ''/'' parts"

definition dirname_slash :: "string \<Rightarrow> string" where
  "dirname_slash p =
     (let parent = rev (drop 1 (dropWhile (\<lambda>c. c \<noteq> CHR ''/'') (rev p)))
      in if CHR ''/'' \<notin> set p then ''.'' else if parent = [] then ''/'' else parent)"

fun str_le :: "string \<Rightarrow> string \<Rightarrow> bool" where
  "str_le [] b = True"
| "str_le (x # xs) [] = False"
| "str_le (x # xs) (y # ys) =
     ((of_char x :: nat) < of_char y \<or> (x = y \<and> str_le xs ys))"

definition lines_parse :: "string \<Rightarrow> parsed_project option" where
  "lines_parse raw =
     (case str_split (CHR 0x0A) raw of
        i # wt # v # sb \<Rightarrow>
          Some \<lparr>pp_id = Some i, pp_worktree = Some wt, pp_vcs = Some v,
                pp_sandboxes = Some sb, pp_created = None\<rparr>
      | _ \<Rightarrow> None)"

definition lines_stringify :: "project \<Rightarrow> string" where
  "lines_stringify p =
     foldl (\<lambda>acc q. acc @ [CHR 0x0A] @ q) (p_id p) ([p_worktree p, p_vcs p] @ p_sandboxes p)"

definition posix_env :: "bool \<Rightarrow> (world \<Rightarrow> git_call \<Rightarrow> exec_result) \<Rightarrow> env" where
  "posix_env win answers =
     \<lparr>isWindows = win, homedir = ''/home/u'', xdgDataHome = [],
      path_join = join_slash, path_resolve = resolve_slash, path_dirname = dirname_slash,
      path_normalize = (\<lambda>p. p), realpath = (\<lambda>w p. Some p), locale_le = str_le,
      json_parse = lines_parse, json_stringify = lines_stringify, now = 1000,
      draws = (\<lambda>i. (i, 2 * i)), git = answers\<rparr>"

definition empty_world :: world where
  "empty_world = \<lparr>fs = (\<lambda>p. None), denied = (\<lambda>p. False), gitLog = [], adapterLog = [],
      consoleLog = [], queued = []\<rparr>"

definition answer :: "int \<Rightarrow> string \<Rightarrow> string \<Rightarrow> exec_result" where
  "answer code out err = \<lparr>stdout = out, stderr = err, exitCode = code\<rparr>"

text \<open>Answers of git for the examples of merge and rebase.\<close>

definition conflict_git :: "world \<Rightarrow> git_call \<Rightarrow> exec_result" where
  "conflict_git w call =
     (if snd call = [''status'', ''--porcelain''] then answer 0 (''UU x.txt'' @ [CHR 0x0A]) []
      else answer 1 ''CONFLICT (content): Merge conflict in x.txt'' [])"

definition other_phrase_git :: "world \<Rightarrow> git_call \<Rightarrow> exec_result" where
  "other_phrase_git w call =
     (if take 1 (snd call) = [''merge''] then answer 1 ''error: could not apply 1a2b3c'' []
      else answer 1 ''Automatic merge failed'' [])"

definition silent_git :: "world \<Rightarrow> git_call \<Rightarrow> exec_result" where
  "silent_git w call = answer 0 [] []"

section \<open>Status by raw git\<close>

record git_status_file =
  path :: string
  index :: string
  working_dir :: string

record merge_in_progress =
  head :: string
  message :: string

record rebase_in_progress =
  headName :: string
  onto :: string

text \<open>An absent \<open>mergeInProgress\<close> or \<open>rebaseInProgress\<close> key is \<open>None\<close>.\<close>

record git_status_result =
  current :: string
  tracking :: "string option"
  ahead :: nat
  behind :: nat
  files :: "git_status_file list"
  isClean :: bool
  mergeInProgress :: "merge_in_progress option"
  rebaseInProgress :: "rebase_in_progress option"

text \<open>\<open>replace_first pat rep s\<close> is \<open>s.replace(pat, rep)\<close> for a literal, non-empty \<open>pat\<close>.\<close>

fun replace_first :: "string \<Rightarrow> string \<Rightarrow> string \<Rightarrow> string" where
  "replace_first pat rep [] = []"
| "replace_first pat rep (c # cs) =
     (if startsWith (c # cs) pat then rep @ drop (length pat) (c # cs)
      else c # replace_first pat rep cs)"

definition read_or_empty :: "string \<Rightarrow> string io" where
  "read_or_empty p = io_catch (readFile p) (\<lambda>_. io_ret [])"

definition checkInProgressOperations ::
  "env \<Rightarrow> string \<Rightarrow> (merge_in_progress option \<times> rebase_in_progress option) io" where
  "checkInProgressOperations E directory =
     (let gitDir = path_join E [directory, ''.git''];
          mergeHeadPath = path_join E [gitDir, ''MERGE_HEAD'']
      in
      io_bind (checkPathExists mergeHeadPath) (\<lambda>mergeHeadExists.
      io_bind (if mergeHeadExists
               then io_bind (read_or_empty mergeHeadPath) (\<lambda>mergeHead.
                      let headSha = take 7 (trim mergeHead)
                      in if headSha \<noteq> []
                         then io_bind (read_or_empty (path_join E [gitDir, ''MERGE_MSG''])) (\<lambda>mergeMsg.
                                io_ret (Some \<lparr>head = headSha,
                                              message = hd (str_split (CHR 0x0A) mergeMsg)\<rparr>))
                         else io_ret None)
               else io_ret None) (\<lambda>mergeState.
      io_bind (checkPathExists (path_join E [gitDir, ''rebase-merge''])) (\<lambda>rebaseMergeExists.
      io_bind (checkPathExists (path_join E [gitDir, ''rebase-apply''])) (\<lambda>rebaseApplyExists.
      io_bind (if rebaseMergeExists \<or> rebaseApplyExists
               then (let rebaseDir = (if rebaseMergeExists then ''rebase-merge'' else ''rebase-apply'')
                     in io_bind (read_or_empty (path_join E [gitDir, rebaseDir, ''head-name''])) (\<lambda>headNameRaw.
                        io_bind (read_or_empty (path_join E [gitDir, rebaseDir, ''onto''])) (\<lambda>ontoRaw.
                          let headNameTrimmed = replace_first ''refs/heads/'' [] (trim headNameRaw);
                              ontoTrimmed = take 7 (trim ontoRaw)
                          in if headNameTrimmed \<noteq> [] \<or> ontoTrimmed \<noteq> []
                             then io_ret (Some \<lparr>headName = headNameTrimmed, onto = ontoTrimmed\<rparr>)
                             else io_ret None)))
               else io_ret None) (\<lambda>rebaseState.
      io_ret (mergeState, rebaseState)))))))"

text \<open>
  The branch line is matched by \<open>/^## (.+?)(?:\.\.\.(.+?))?(?:\s+\[(.+)\])?$/\<close>. The three
  functions below try the alternatives in the order of a backtracking matcher: the
  first group as short as possible; for each length, the group after \<open>...\<close> first
  (again as short as possible), then without it; and last the bracket, present or not.
  A dot matches every character but line feed and carriage return.
\<close>

definition dot_char :: "char \<Rightarrow> bool" where
  "dot_char c = (c \<noteq> CHR 0x0A \<and> c \<noteq> CHR 0x0D)"

fun first_some :: "('a \<Rightarrow> 'b option) \<Rightarrow> 'a list \<Rightarrow> 'b option" where
  "first_some f [] = None"
| "first_some f (x # xs) = (case f x of Some y \<Rightarrow> Some y | None \<Rightarrow> first_some f xs)"

definition match_bracket :: "string \<Rightarrow> string option option" where
  "match_bracket r =
     (if r = [] then Some None
      else
        let rest = dropWhile js_space r
        in if takeWhile js_space r \<noteq> [] \<and> 3 \<le> length rest \<and> hd rest = CHR ''[''
              \<and> last rest = CHR '']'' \<and> list_all dot_char (butlast (tl rest))
           then Some (Some (butlast (tl rest)))
           else None)"

definition match_tracking :: "string \<Rightarrow> (string option \<times> string option) option" where
  "match_tracking r =
     (case (if startsWith r ''...''
            then first_some
                   (\<lambda>n. if list_all dot_char (take n (drop 3 r))
                        then map_option (\<lambda>g3. (Some (take n (drop 3 r)), g3))
                               (match_bracket (drop n (drop 3 r)))
                        else None)
                   [1..<Suc (length (drop 3 r))]
            else None) of
        Some res \<Rightarrow> Some res
      | None \<Rightarrow> map_option (\<lambda>g3. (None, g3)) (match_bracket r))"

definition match_branch_header :: "string \<Rightarrow> (string \<times> string option \<times> string option) option" where
  "match_branch_header line =
     (if startsWith line ''## ''
      then first_some
             (\<lambda>n. if list_all dot_char (take n (drop 3 line))
                  then map_option (\<lambda>(g2, g3). (take n (drop 3 line), g2, g3))
                         (match_tracking (drop n (drop 3 line)))
                  else None)
             [1..<Suc (length (drop 3 line))]
      else None)"

definition is_digit :: "char \<Rightarrow> bool" where
  "is_digit c = (let n = (of_char c :: nat) in 48 \<le> n \<and> n \<le> 57)"

definition parseInt :: "string \<Rightarrow> nat" where
  "parseInt ds = foldl (\<lambda>acc d. 10 * acc + (of_char d - 48)) 0 ds"

text \<open>\<open>number_after key s\<close> is group 1 of \<open>s.match(/key(\d+)/)\<close>, read by \<open>parseInt\<close>.\<close>

fun number_after :: "string \<Rightarrow> string \<Rightarrow> nat option" where
  "number_after key [] = None"
| "number_after key (c # cs) =
     (if startsWith (c # cs) key \<and> takeWhile is_digit (drop (length key) (c # cs)) \<noteq> []
      then Some (parseInt (takeWhile is_digit (drop (length key) (c # cs))))
      else number_after key cs)"

record status_acc =
  acc_current :: string
  acc_tracking :: "string option"
  acc_ahead :: nat
  acc_behind :: nat
  acc_files :: "git_status_file list"

text \<open>One turn of the loop over the lines of the porcelain output.\<close>

definition status_line :: "status_acc \<Rightarrow> string \<Rightarrow> status_acc" where
  "status_line acc line =
     (if startsWith line ''##''
      then (case match_branch_header line of
              None \<Rightarrow> acc
            | Some (g1, g2, g3) \<Rightarrow>
                let trackingInfo = (case g3 of Some info \<Rightarrow> info | None \<Rightarrow> [])
                in acc\<lparr>acc_current := g1,
                       acc_tracking := g2,
                       acc_ahead := (case number_after ''ahead '' trackingInfo of Some n \<Rightarrow> n | None \<Rightarrow> 0),
                       acc_behind := (case number_after ''behind '' trackingInfo of Some n \<Rightarrow> n | None \<Rightarrow> 0)\<rparr>)
      else acc\<lparr>acc_files := acc_files acc @
                  [\<lparr>path = trim (drop 3 line),
                    index = take 1 line,
                    working_dir = (if 2 \<le> length line then take 1 (drop 1 line) else '' '')\<rparr>]\<rparr>)"

definition getGitStatusRaw :: "env \<Rightarrow> string \<Rightarrow> git_status_result io" where
  "getGitStatusRaw E directory =
     io_bind (execGit E [''status'', ''--porcelain=v1'', ''-b'', ''-uall''] directory) (\<lambda>statusResult.
       if exitCode statusResult \<noteq> 0
       then io_ret \<lparr>current = [], tracking = None, ahead = 0, behind = 0, files = [],
                    isClean = True, mergeInProgress = None, rebaseInProgress = None\<rparr>
       else
         let lines = filter (\<lambda>l. l \<noteq> []) (str_split (CHR 0x0A) (trim (stdout statusResult)));
             acc = foldl status_line
                     \<lparr>acc_current = [], acc_tracking = None, acc_ahead = 0, acc_behind = 0,
                      acc_files = []\<rparr> lines
         in io_bind (checkInProgressOperations E directory) (\<lambda>inProgressState.
              io_ret \<lparr>current = acc_current acc, tracking = acc_tracking acc,
                      ahead = acc_ahead acc, behind = acc_behind acc, files = acc_files acc,
                      isClean = (acc_files acc = []),
                      mergeInProgress = fst inProgressState,
                      rebaseInProgress = snd inProgressState\<rparr>))"

text \<open>Answers of git for the examples of the status.\<close>

definition not_a_repository_git :: "world \<Rightarrow> git_call \<Rightarrow> exec_result" where
  "not_a_repository_git w call = answer 128 [] ''fatal: not a git repository''"

definition branch_status_git :: "world \<Rightarrow> git_call \<Rightarrow> exec_result" where
  "branch_status_git w call =
     answer 0 (''## main...origin/main [ahead 1, behind 12]'' @ [CHR 0x0A] @ '' M src/a.ts'' @ [CHR 0x0A]
               @ ''?? b.txt'' @ [CHR 0x0A]) []"

section \<open>Worktree operations\<close>

subsection \<open>Small helpers\<close>

definition normalizeDirectoryPath :: "env \<Rightarrow> string \<Rightarrow> string" where
  "normalizeDirectoryPath E v =
     (let trimmed = trim v
      in if trimmed = [] then trimmed
         else if trimmed = ''~'' then homedir E
         else if startsWith trimmed ''~/'' \<or> startsWith trimmed [CHR ''~'', CHR 0x5C]
           then path_join E [homedir E, drop 2 trimmed]
         else trimmed)"

definition cleanBranchName :: "string \<Rightarrow> string" where
  "cleanBranchName b =
     (if b = [] then b
      else if startsWith b ''refs/heads/'' then drop (length ''refs/heads/'') b
      else if startsWith b ''heads/'' then drop (length ''heads/'') b
      else if startsWith b ''refs/'' then drop (length ''refs/'') b
      else b)"

definition normalizeStartRef :: "string \<Rightarrow> string" where
  "normalizeStartRef v = (let trimmed = trim v in if trimmed \<noteq> [] then trimmed else ''HEAD'')"

definition getOpenCodeDataPath :: "env \<Rightarrow> string" where
  "getOpenCodeDataPath E =
     path_join E [if xdgDataHome E \<noteq> [] then xdgDataHome E
                  else path_join E [homedir E, ''.local'', ''share''],
                  ''opencode'']"

definition canonicalPath :: "env \<Rightarrow> string \<Rightarrow> string io" where
  "canonicalPath E input = (\<lambda>w.
     let absolutePath = path_resolve E [input];
         realPath = (case realpath E w absolutePath of Some p \<Rightarrow> p | None \<Rightarrow> absolutePath);
         normalized = path_normalize E realPath
     in (Inr (if isWindows E then toLowerCase normalized else normalized), w))"

record git_command_result =
  cmd_success :: bool
  cmd_exitCode :: int
  cmd_stdout :: string
  cmd_stderr :: string
  cmd_message :: string

definition join_lines :: "string list \<Rightarrow> string" where
  "join_lines parts = (case parts of [] \<Rightarrow> [] | p # ps \<Rightarrow> foldl (\<lambda>acc q. acc @ [CHR 0x0A] @ q) p ps)"

definition runGitCommand :: "env \<Rightarrow> string \<Rightarrow> string list \<Rightarrow> git_command_result io" where
  "runGitCommand E cwd args =
     io_bind (execGit E args cwd) (\<lambda>result.
       io_ret \<lparr>cmd_success = (exitCode result = 0),
               cmd_exitCode = exitCode result,
               cmd_stdout = stdout result,
               cmd_stderr = stderr result,
               cmd_message = trim (join_lines (filter (\<lambda>v. v \<noteq> [])
                                      (map trim [stderr result, stdout result])))\<rparr>)"

definition runGitCommandOrThrow :: "env \<Rightarrow> string \<Rightarrow> string list \<Rightarrow> string \<Rightarrow> git_command_result io" where
  "runGitCommandOrThrow E cwd args fallbackMessage =
     io_bind (runGitCommand E cwd args) (\<lambda>result.
       if \<not> cmd_success result
       then io_throw (Error (if cmd_message result \<noteq> [] then cmd_message result
                             else if fallbackMessage \<noteq> [] then fallbackMessage
                             else ''Git command failed''))
       else io_ret result)"

subsection \<open>The project id and the project context\<close>

text \<open>\<open>sort_by le\<close> is the stable \<open>Array.prototype.sort\<close> with the comparison \<open>localeCompare\<close>.\<close>

fun insert_by :: "('a \<Rightarrow> 'a \<Rightarrow> bool) \<Rightarrow> 'a \<Rightarrow> 'a list \<Rightarrow> 'a list" where
  "insert_by le x [] = [x]"
| "insert_by le x (y # ys) = (if le x y then x # y # ys else y # insert_by le x ys)"

definition sort_by :: "('a \<Rightarrow> 'a \<Rightarrow> bool) \<Rightarrow> 'a list \<Rightarrow> 'a list" where
  "sort_by le xs = foldr (insert_by le) xs []"

text \<open>
  \<open>ensureOpenCodeProjectId\<close> reads the marker file \<open>.git/opencode\<close> of the primary
  worktree; when that gives nothing it derives the id from the root commits and writes
  the marker file, ignoring a failure of the \<open>mkdir\<close> and of the write.
\<close>

definition ensureOpenCodeProjectId :: "env \<Rightarrow> string \<Rightarrow> string io" where
  "ensureOpenCodeProjectId E primaryWorktree =
     (let gitDir = path_join E [primaryWorktree, ''.git''];
          idFile = path_join E [gitDir, ''opencode'']
      in io_bind (io_catch (io_bind (readFile idFile) (\<lambda>v. io_ret (trim v))) (\<lambda>_. io_ret [])) (\<lambda>existing.
           if existing \<noteq> [] then io_ret existing
           else
             io_bind (runGitCommandOrThrow E primaryWorktree
                        [''rev-list'', ''--max-parents=0'', ''--all'']
                        ''Failed to resolve repository roots'') (\<lambda>rootsResult.
               let roots = sort_by (locale_le E)
                             (filter (\<lambda>l. l \<noteq> [])
                                (map trim (str_split (CHR 0x0A) (cmd_stdout rootsResult))));
                   projectId = (case roots of [] \<Rightarrow> [] | r # _ \<Rightarrow> r)
               in if projectId = [] then io_throw (Error ''Failed to derive OpenCode project ID'')
                  else
                    io_bind (io_catch (mkdir E gitDir) (\<lambda>_. io_ret ())) (\<lambda>_.
                    io_bind (io_catch (writeFile E idFile projectId) (\<lambda>_. io_ret ())) (\<lambda>_.
                    io_ret projectId)))))"

record project_context =
  projectID :: string
  sandbox :: string
  primaryWorktree :: string
  worktreeRoot :: string

definition resolveWorktreeProjectContext :: "env \<Rightarrow> string \<Rightarrow> project_context io" where
  "resolveWorktreeProjectContext E directory =
     (let directoryPath = normalizeDirectoryPath E directory
      in if directoryPath = [] then io_throw (Error ''Directory is required'')
         else
           io_bind (runGitCommandOrThrow E directoryPath [''rev-parse'', ''--show-toplevel'']
                      ''Failed to resolve git top-level directory'') (\<lambda>topResult.
             let sb = path_resolve E [directoryPath, trim (cmd_stdout topResult)]
             in io_bind (runGitCommandOrThrow E sb [''rev-parse'', ''--git-common-dir'']
                           ''Failed to resolve git common directory'') (\<lambda>commonResult.
                  let commonDir = path_resolve E [sb, trim (cmd_stdout commonResult)];
                      primary = path_dirname E commonDir
                  in io_bind (ensureOpenCodeProjectId E primary) (\<lambda>pid.
                       io_ret \<lparr>projectID = pid, sandbox = sb, primaryWorktree = primary,
                               worktreeRoot = path_join E [getOpenCodeDataPath E, ''worktree'', pid]\<rparr>))))"

subsection \<open>The list of worktrees\<close>

record worktree_entry =
  worktree :: string
  entry_head :: "string option"
  branchRef :: "string option"
  entry_branch :: "string option"

text \<open>
  One turn of the loop of \<open>parseWorktreePorcelain\<close> over the trimmed lines: the state is
  the entries pushed so far and the entry being read.
\<close>

definition push_current :: "worktree_entry list \<Rightarrow> worktree_entry option \<Rightarrow> worktree_entry list" where
  "push_current entries cur =
     (case cur of
        Some e \<Rightarrow> if worktree e \<noteq> [] then entries @ [e] else entries
      | None \<Rightarrow> entries)"

definition porcelain_line ::
  "worktree_entry list \<times> worktree_entry option \<Rightarrow> string \<Rightarrow> worktree_entry list \<times> worktree_entry option" where
  "porcelain_line st line =
     (let entries = fst st; cur = snd st
      in if line = [] then (push_current entries cur, None)
         else if startsWith line ''worktree ''
           then (push_current entries cur,
                 Some \<lparr>worktree = trim (drop (length ''worktree '') line), entry_head = None,
                       branchRef = None, entry_branch = None\<rparr>)
         else (case cur of
                 None \<Rightarrow> (entries, None)
               | Some e \<Rightarrow>
                   if startsWith line ''HEAD ''
                     then (entries, Some (e\<lparr>entry_head := Some (trim (drop (length ''HEAD '') line))\<rparr>))
                   else if startsWith line ''branch ''
                     then (let ref = trim (drop (length ''branch '') line)
                           in (entries, Some (e\<lparr>branchRef := Some ref,
                                                 entry_branch := Some (cleanBranchName ref)\<rparr>)))
                   else (entries, Some e)))"

definition parseWorktreePorcelain :: "string \<Rightarrow> worktree_entry list" where
  "parseWorktreePorcelain raw =
     (let st = foldl porcelain_line ([], None) (map trim (str_split (CHR 0x0A) raw))
      in push_current (fst st) (snd st))"

definition listWorktreeEntries :: "env \<Rightarrow> string \<Rightarrow> worktree_entry list io" where
  "listWorktreeEntries E directory =
     io_bind (runGitCommandOrThrow E directory [''worktree'', ''list'', ''--porcelain'']
                ''Failed to list git worktrees'') (\<lambda>rawResult.
       io_ret (parseWorktreePorcelain (cmd_stdout rawResult)))"

definition or_empty :: "string option \<Rightarrow> string" where
  "or_empty v = (case v of Some s \<Rightarrow> s | None \<Rightarrow> [])"

definition findBranchInUse :: "env \<Rightarrow> string \<Rightarrow> string \<Rightarrow> worktree_entry option io" where
  "findBranchInUse E primary localBranchName =
     (if localBranchName = [] then io_ret None
      else
        io_bind (listWorktreeEntries E primary) (\<lambda>entries.
          let targetRef = ''refs/heads/'' @ localBranchName;
              targetClean = cleanBranchName targetRef
          in io_ret (find (\<lambda>entry.
                 let entryRef = trim (or_empty (branchRef entry));
                     entryClean = cleanBranchName
                                    (if entryRef \<noteq> [] then entryRef else or_empty (entry_branch entry))
                 in entryRef = targetRef \<or> entryClean = targetClean) entries)))"

subsection \<open>The project metadata store\<close>

definition getProjectStoragePath :: "env \<Rightarrow> string \<Rightarrow> string" where
  "getProjectStoragePath E pid =
     path_join E [getOpenCodeDataPath E, ''storage'', ''project'', pid @ ''.json'']"

definition clean_sandboxes :: "string list \<Rightarrow> string list" where
  "clean_sandboxes entries = filter (\<lambda>e. e \<noteq> []) (map trim entries)"

text \<open>\<open>[...new Set(xs)]\<close> keeps the first of equal entries.\<close>

definition unique_first :: "string list \<Rightarrow> string list" where
  "unique_first xs = rev (remdups (rev xs))"

text \<open>
  \<open>updateProjectSandboxes\<close>: the updater acts on the list of sandboxes only, so it is
  a function on that list. The \<open>mkdir\<close> and the write are not caught here.
\<close>

definition updateProjectSandboxes ::
  "env \<Rightarrow> string \<Rightarrow> string \<Rightarrow> (string list \<Rightarrow> string list) \<Rightarrow> unit io" where
  "updateProjectSandboxes E pid primary updater =
     (let storagePath = getProjectStoragePath E pid
      in io_bind (mkdir E (path_dirname E storagePath)) (\<lambda>_.
         io_bind (io_catch (io_bind (readFile storagePath) (\<lambda>raw. io_ret (json_parse E raw)))
                           (\<lambda>_. io_ret None)) (\<lambda>parsed.
           let cur_id = (case parsed of Some pp \<Rightarrow>
                           (case pp_id pp of Some i \<Rightarrow> if i \<noteq> [] then i else pid | None \<Rightarrow> pid)
                         | None \<Rightarrow> pid);
               cur_worktree = (case parsed of Some pp \<Rightarrow>
                           (case pp_worktree pp of Some wt \<Rightarrow> if wt \<noteq> [] then wt else primary
                            | None \<Rightarrow> primary)
                         | None \<Rightarrow> primary);
               cur_vcs = (case parsed of Some pp \<Rightarrow>
                           (case pp_vcs pp of Some v \<Rightarrow> if v \<noteq> [] then v else ''git'' | None \<Rightarrow> ''git'')
                         | None \<Rightarrow> ''git'');
               cur_sandboxes = (case parsed of Some pp \<Rightarrow>
                           (case pp_sandboxes pp of Some sb \<Rightarrow> clean_sandboxes sb | None \<Rightarrow> [])
                         | None \<Rightarrow> []);
               cur_created = (case parsed of Some pp \<Rightarrow>
                           (case pp_created pp of Some c \<Rightarrow> if 0 < c then c else now E | None \<Rightarrow> now E)
                         | None \<Rightarrow> now E);
               updated = \<lparr>p_id = cur_id, p_worktree = cur_worktree, p_vcs = cur_vcs,
                          p_sandboxes = unique_first (clean_sandboxes (updater cur_sandboxes)),
                          p_created = cur_created, p_updated = now E\<rparr>
           in writeFile E storagePath (json_stringify E updated @ [CHR 0x0A]))))"

definition syncProjectSandboxAdd :: "env \<Rightarrow> string \<Rightarrow> string \<Rightarrow> string \<Rightarrow> unit io" where
  "syncProjectSandboxAdd E pid primary sandboxPath =
     (let sb = trim sandboxPath
      in if sb = [] then io_ret ()
         else updateProjectSandboxes E pid primary
                (\<lambda>sandboxes. if sb \<in> set sandboxes then sandboxes else sandboxes @ [sb]))"

definition syncProjectSandboxRemove :: "env \<Rightarrow> string \<Rightarrow> string \<Rightarrow> string \<Rightarrow> unit io" where
  "syncProjectSandboxRemove E pid primary sandboxPath =
     (let sb = trim sandboxPath
      in if sb = [] then io_ret ()
         else updateProjectSandboxes E pid primary (\<lambda>sandboxes. filter (\<lambda>entry. entry \<noteq> sb) sandboxes))"

subsection \<open>Removing a worktree\<close>

record remove_payload =
  rm_directory :: string
  rm_deleteLocalBranch :: bool

text \<open>The loop that looks the target up among the entries, by canonical path.\<close>

fun findMatchedEntry :: "env \<Rightarrow> string \<Rightarrow> worktree_entry list \<Rightarrow> worktree_entry option io" where
  "findMatchedEntry E targetCanonical [] = io_ret None"
| "findMatchedEntry E targetCanonical (entry # rest) =
     (if worktree entry = [] then findMatchedEntry E targetCanonical rest
      else io_bind (canonicalPath E (worktree entry)) (\<lambda>entryCanonical.
             if entryCanonical = targetCanonical then io_ret (Some entry)
             else findMatchedEntry E targetCanonical rest))"

definition sync_remove_logged :: "env \<Rightarrow> project_context \<Rightarrow> string \<Rightarrow> unit io" where
  "sync_remove_logged E context sandboxPath =
     io_catch (syncProjectSandboxRemove E (projectID context) (primaryWorktree context) sandboxPath)
       (\<lambda>e. console_log (''[GitService] Failed to sync OpenCode sandbox metadata (remove): ''
                          @ error_message e))"

definition removeWorktree :: "env \<Rightarrow> string \<Rightarrow> remove_payload \<Rightarrow> bool io" where
  "removeWorktree E directory input =
     (let targetDirectory = normalizeDirectoryPath E (rm_directory input)
      in if targetDirectory = [] then io_throw (Error ''Worktree directory is required'')
         else
           io_bind (resolveWorktreeProjectContext E directory) (\<lambda>context.
           io_bind (canonicalPath E targetDirectory) (\<lambda>targetCanonical.
           io_bind (canonicalPath E (primaryWorktree context)) (\<lambda>primaryCanonical.
             if targetCanonical = primaryCanonical
             then io_throw (Error ''Cannot remove the primary workspace'')
             else
               io_bind (listWorktreeEntries E (primaryWorktree context)) (\<lambda>entries.
               io_bind (findMatchedEntry E targetCanonical entries) (\<lambda>matchedEntry.
                 case matchedEntry of
                   None \<Rightarrow>
                     io_bind (checkPathExists targetDirectory) (\<lambda>targetExists.
                     io_bind (if targetExists then rm E targetDirectory else io_ret ()) (\<lambda>_.
                     io_bind (sync_remove_logged E context targetDirectory) (\<lambda>_.
                     io_ret True)))
                 | Some entry \<Rightarrow>
                     io_bind (runGitCommandOrThrow E (primaryWorktree context)
                                [''worktree'', ''remove'', ''--force'', worktree entry]
                                ''Failed to remove git worktree'') (\<lambda>_.
                     io_bind (if rm_deleteLocalBranch input
                              then (let branchName = cleanBranchName (trim
                                          (if or_empty (branchRef entry) \<noteq> [] then or_empty (branchRef entry)
                                           else or_empty (entry_branch entry)))
                                    in if branchName \<noteq> []
                                       then io_bind (runGitCommandOrThrow E (primaryWorktree context)
                                                       [''branch'', ''-D'', branchName]
                                                       (''Failed to delete local branch '' @ branchName))
                                              (\<lambda>_. io_ret ())
                                       else io_ret ())
                              else io_ret ()) (\<lambda>_.
                     io_bind (sync_remove_logged E context (worktree entry)) (\<lambda>_.
                     io_ret True)))))))))"

subsection \<open>Resolving branches\<close>

definition fetchRemoteBranchRef :: "env \<Rightarrow> string \<Rightarrow> string \<Rightarrow> string \<Rightarrow> unit io" where
  "fetchRemoteBranchRef E primary remoteName branchName =
     (let rmt = trim remoteName; br = trim branchName
      in if rmt = [] \<or> br = [] then io_ret ()
         else
           io_bind (runGitCommandOrThrow E primary
                      [''fetch'', rmt, ''+refs/heads/'' @ br @ '':refs/remotes/'' @ rmt @ ''/'' @ br]
                      (''Failed to fetch '' @ rmt @ ''/'' @ br)) (\<lambda>_. io_ret ()))"

record resolved_branch =
  rb_localBranch :: string
  rb_checkoutRef :: string
  rb_createLocalBranch :: bool
  rb_remoteRef :: "remote_branch_ref option"

definition resolveBranchForExistingMode ::
  "env \<Rightarrow> string \<Rightarrow> string \<Rightarrow> string \<Rightarrow> resolved_branch io" where
  "resolveBranchForExistingMode E primary existingBranch preferredBranchName =
     (let requested = trim existingBranch
      in if requested = [] then io_throw (Error ''existingBranch is required in existing mode'')
         else
           let normalizedLocal = cleanBranchName requested
           in io_bind (runGitCommand E primary
                         [''show-ref'', ''--verify'', ''--quiet'', ''refs/heads/'' @ normalizedLocal]) (\<lambda>localExists.
                if cmd_success localExists
                then io_ret \<lparr>rb_localBranch = normalizedLocal, rb_checkoutRef = normalizedLocal,
                             rb_createLocalBranch = False, rb_remoteRef = None\<rparr>
                else
                  (case parseRemoteBranchRef requested of
                     None \<Rightarrow> io_throw (Error (''Branch not found: '' @ requested))
                   | Some rr \<Rightarrow>
                       io_bind (runGitCommand E primary
                                  [''show-ref'', ''--verify'', ''--quiet'', fullRef rr]) (\<lambda>remoteExists.
                       io_bind (if \<not> cmd_success remoteExists
                                then io_bind (io_catch (fetchRemoteBranchRef E primary (remote rr) (branch rr))
                                                (\<lambda>_. io_ret ())) (\<lambda>_.
                                     io_bind (runGitCommand E primary
                                                [''show-ref'', ''--verify'', ''--quiet'', fullRef rr]) (\<lambda>recheck.
                                       if \<not> cmd_success recheck
                                       then io_throw (Error (''Remote branch not found: '' @ requested))
                                       else io_ret ()))
                                else io_ret ()) (\<lambda>_.
                         let localBranch = cleanBranchName
                               (if preferredBranchName \<noteq> [] then preferredBranchName
                                else if branch rr \<noteq> [] then branch rr else requested)
                         in if localBranch = []
                            then io_throw (Error ''Failed to resolve local branch name for existing branch worktree'')
                            else io_ret \<lparr>rb_localBranch = localBranch, rb_checkoutRef = remoteRef rr,
                                         rb_createLocalBranch = True, rb_remoteRef = Some rr\<rparr>)))))"


subsection \<open>Validating the creation of a worktree\<close>

text \<open>An absent string of the payload is the empty string, an absent flag is false.\<close>

record create_payload =
  in_mode :: string
  in_worktreeName :: string
  in_name :: string
  in_branchName :: string
  in_existingBranch :: string
  in_startRef :: string
  in_startCommand :: string
  in_setUpstream :: bool
  in_upstreamRemote :: string
  in_upstreamBranch :: string
  in_ensureRemoteName :: string
  in_ensureRemoteUrl :: string

record validation_error =
  code :: string
  msg :: string






subsection \<open>Candidate names\<close>

definition OPENCODE_ADJECTIVES :: "string list" where
  "OPENCODE_ADJECTIVES =
     [''brave'', ''calm'', ''clever'', ''cosmic'', ''crisp'', ''curious'', ''eager'', ''gentle'',
      ''glowing'', ''happy'', ''hidden'', ''jolly'', ''kind'', ''lucky'', ''mighty'', ''misty'',
      ''neon'', ''nimble'', ''playful'', ''proud'', ''quick'', ''quiet'', ''shiny'', ''silent'',
      ''stellar'', ''sunny'', ''swift'', ''tidy'', ''witty'']"

definition OPENCODE_NOUNS :: "string list" where
  "OPENCODE_NOUNS =
     [''cabin'', ''cactus'', ''canyon'', ''circuit'', ''comet'', ''eagle'', ''engine'', ''falcon'',
      ''forest'', ''garden'', ''harbor'', ''island'', ''knight'', ''lagoon'', ''meadow'', ''moon'',
      ''mountain'', ''nebula'', ''orchid'', ''otter'', ''panda'', ''pixel'', ''planet'', ''river'',
      ''rocket'', ''sailor'', ''squid'', ''star'', ''tiger'', ''wizard'', ''wolf'']"

definition OPENCODE_WORKTREE_ATTEMPTS :: nat where
  "OPENCODE_WORKTREE_ATTEMPTS = 26"

text \<open>\<open>pickRandom values r\<close> is \<open>values[Math.floor(Math.random() * values.length)]\<close>, the
  number drawn being \<open>r\<close>.\<close>

definition pickRandom :: "string list \<Rightarrow> nat \<Rightarrow> string" where
  "pickRandom values r = values ! (r mod length values)"

definition generateOpenCodeRandomName :: "nat \<times> nat \<Rightarrow> string" where
  "generateOpenCodeRandomName d =
     pickRandom OPENCODE_ADJECTIVES (fst d) @ ''-'' @ pickRandom OPENCODE_NOUNS (snd d)"

definition resolveWorktreeNameCandidates :: "env \<Rightarrow> string \<Rightarrow> string list" where
  "resolveWorktreeNameCandidates E baseName =
     (let normalizedBase = slugWorktreeName baseName
      in if normalizedBase = []
         then map (\<lambda>i. generateOpenCodeRandomName (draws E i)) [0..<OPENCODE_WORKTREE_ATTEMPTS]
         else map (\<lambda>i. if i = 0 then normalizedBase
                        else normalizedBase @ ''-'' @ generateOpenCodeRandomName (draws E i))
                [0..<OPENCODE_WORKTREE_ATTEMPTS])"

record candidate =
  cand_name :: string
  cand_directory :: string
  cand_branch :: string

text \<open>The loop of \<open>resolveCandidateDirectory\<close> over the candidates.\<close>

fun tryCandidates :: "env \<Rightarrow> string \<Rightarrow> string \<Rightarrow> string \<Rightarrow> string list \<Rightarrow> candidate io" where
  "tryCandidates E root explicitBranchName primary [] =
     io_throw (Error ''Failed to generate a unique worktree name'')"
| "tryCandidates E root explicitBranchName primary (nm # rest) =
     io_bind (checkPathExists (path_join E [root, nm])) (\<lambda>dirExists.
       if dirExists then tryCandidates E root explicitBranchName primary rest
       else if explicitBranchName \<noteq> []
         then io_ret \<lparr>cand_name = nm, cand_directory = path_join E [root, nm],
                      cand_branch = explicitBranchName\<rparr>
       else
         io_bind (runGitCommand E primary
                    [''show-ref'', ''--verify'', ''--quiet'', ''refs/heads/'' @ (''openchamber/'' @ nm)]) (\<lambda>branchExists.
           if cmd_success branchExists then tryCandidates E root explicitBranchName primary rest
           else io_ret \<lparr>cand_name = nm, cand_directory = path_join E [root, nm],
                        cand_branch = ''openchamber/'' @ nm\<rparr>))"

definition resolveCandidateDirectory ::
  "env \<Rightarrow> string \<Rightarrow> string \<Rightarrow> string \<Rightarrow> string \<Rightarrow> candidate io" where
  "resolveCandidateDirectory E root preferredName explicitBranchName primary =
     tryCandidates E root explicitBranchName primary (resolveWorktreeNameCandidates E preferredName)"

subsection \<open>Creating a worktree\<close>

definition ensureRemoteWithUrl :: "env \<Rightarrow> string \<Rightarrow> string \<Rightarrow> string \<Rightarrow> unit io" where
  "ensureRemoteWithUrl E primary remoteName remoteUrl =
     (let nm = trim remoteName; url = trim remoteUrl
      in if nm = [] \<or> url = [] then io_ret ()
         else
           io_bind (runGitCommand E primary [''remote'', ''get-url'', nm]) (\<lambda>getUrl.
             if cmd_success getUrl
             then (if trim (cmd_stdout getUrl) \<noteq> url
                   then io_bind (runGitCommandOrThrow E primary [''remote'', ''set-url'', nm, url]
                                   ''Failed to update git remote URL'') (\<lambda>_. io_ret ())
                   else io_ret ())
             else io_bind (runGitCommandOrThrow E primary [''remote'', ''add'', nm, url]
                             ''Failed to add git remote'') (\<lambda>_. io_ret ())))"

definition setBranchTrackingFallback :: "env \<Rightarrow> string \<Rightarrow> string \<Rightarrow> string \<times> string \<Rightarrow> unit io" where
  "setBranchTrackingFallback E worktreeDirectory localBranch upstream =
     io_bind (runGitCommandOrThrow E worktreeDirectory
                [''config'', ''branch.'' @ localBranch @ ''.remote'', fst upstream]
                (''Failed to set branch.'' @ localBranch @ ''.remote'')) (\<lambda>_.
     io_bind (runGitCommandOrThrow E worktreeDirectory
                [''config'', ''branch.'' @ localBranch @ ''.merge'', ''refs/heads/'' @ snd upstream]
                (''Failed to set branch.'' @ localBranch @ ''.merge'')) (\<lambda>_.
     io_ret ()))"

definition normalizeUpstreamTarget :: "string \<Rightarrow> string \<Rightarrow> (string \<times> string) option" where
  "normalizeUpstreamTarget rmt br =
     (if trim rmt = [] \<or> trim br = [] then None else Some (trim rmt, trim br))"

definition applyUpstreamConfiguration ::
  "env \<Rightarrow> string \<Rightarrow> string \<Rightarrow> string \<Rightarrow> bool \<Rightarrow> string \<Rightarrow> string \<Rightarrow> string \<Rightarrow> string \<Rightarrow> unit io" where
  "applyUpstreamConfiguration E primary worktreeDirectory localBranch setUpstream
       upstreamRemote upstreamBranch ensureRemoteName ensureRemoteUrl =
     (if \<not> setUpstream then io_ret ()
      else
        io_bind (if ensureRemoteName \<noteq> [] \<and> ensureRemoteUrl \<noteq> []
                 then ensureRemoteWithUrl E primary ensureRemoteName ensureRemoteUrl
                 else io_ret ()) (\<lambda>_.
          case normalizeUpstreamTarget upstreamRemote upstreamBranch of
            None \<Rightarrow> io_ret ()
          | Some upstream \<Rightarrow>
              if localBranch = [] then io_ret ()
              else
                io_bind (io_catch (io_bind (fetchRemoteBranchRef E primary (fst upstream) (snd upstream))
                                     (\<lambda>_. io_ret True))
                                  (\<lambda>_. io_ret False)) (\<lambda>fetched.
                  if fetched
                  then io_bind (runGitCommandOrThrow E worktreeDirectory
                                  [''branch'', ''--set-upstream-to='' @ fst upstream @ ''/'' @ snd upstream,
                                   localBranch]
                                  (''Failed to set upstream to '' @ fst upstream @ ''/'' @ snd upstream))
                         (\<lambda>_. io_ret ())
                  else setBranchTrackingFallback E worktreeDirectory localBranch upstream)))"

definition queueWorktreeStartScripts :: "string \<Rightarrow> string \<Rightarrow> string \<Rightarrow> unit io" where
  "queueWorktreeStartScripts directory pid startCommand = (\<lambda>w.
     (Inr (), w\<lparr>queued := queued w @ [(directory, pid, startCommand)]\<rparr>))"

record worktree_info =
  info_head :: string
  info_name :: string
  info_branch :: string
  info_path :: string

text \<open>
  The branch of the mode in \<open>createWorktree\<close>: it returns \<open>localBranch\<close>, the arguments of
  \<open>git worktree add\<close> and \<open>inferredUpstream\<close>.
\<close>

definition createExisting ::
  "env \<Rightarrow> project_context \<Rightarrow> create_payload \<Rightarrow> candidate \<Rightarrow> string \<Rightarrow> string \<Rightarrow> string
     \<Rightarrow> (string \<times> string list \<times> (string \<times> string) option) io" where
  "createExisting E context input cand preferredBranchName ensureRemoteName ensureRemoteUrl =
     (let requestedExistingBranch = trim (in_existingBranch input)
      in io_bind (case parseRemoteBranchRef requestedExistingBranch of
                    Some pr \<Rightarrow>
                      if ensureRemoteName \<noteq> [] \<and> ensureRemoteUrl \<noteq> [] \<and> remote pr = ensureRemoteName
                      then io_bind (ensureRemoteWithUrl E (primaryWorktree context)
                                      ensureRemoteName ensureRemoteUrl) (\<lambda>_.
                             fetchRemoteBranchRef E (primaryWorktree context) (remote pr) (branch pr))
                      else io_ret ()
                  | None \<Rightarrow> io_ret ()) (\<lambda>_.
         io_bind (resolveBranchForExistingMode E (primaryWorktree context)
                    requestedExistingBranch preferredBranchName) (\<lambda>res.
         io_bind (findBranchInUse E (primaryWorktree context) (rb_localBranch res)) (\<lambda>inUse.
           case inUse of
             Some e \<Rightarrow> io_throw (Error (''Branch is already checked out in '' @ worktree e))
           | None \<Rightarrow>
               io_ret (rb_localBranch res,
                       [''worktree'', ''add'', ''--no-checkout'']
                         @ (if rb_createLocalBranch res then [''-b'', rb_localBranch res] else [])
                         @ [cand_directory cand, rb_checkoutRef res],
                       map_option (\<lambda>rr. (remote rr, branch rr)) (rb_remoteRef res))))))"

definition createNew ::
  "env \<Rightarrow> project_context \<Rightarrow> candidate \<Rightarrow> string
     \<Rightarrow> (string \<times> string list \<times> (string \<times> string) option) io" where
  "createNew E context cand startRef =
     (let localBranch = cand_branch cand
      in if localBranch = [] then io_throw (Error ''Failed to resolve branch name for new worktree'')
         else
           io_bind (runGitCommand E (primaryWorktree context)
                      [''show-ref'', ''--verify'', ''--quiet'', ''refs/heads/'' @ localBranch]) (\<lambda>branchExists.
             if cmd_success branchExists
             then io_throw (Error (''Branch already exists: '' @ localBranch))
             else
               io_bind (findBranchInUse E (primaryWorktree context) localBranch) (\<lambda>inUse.
                 case inUse of
                   Some e \<Rightarrow> io_throw (Error (''Branch is already checked out in '' @ worktree e))
                 | None \<Rightarrow>
                     io_ret (localBranch,
                             [''worktree'', ''add'', ''--no-checkout'', ''-b'', localBranch,
                              cand_directory cand]
                               @ (if startRef \<noteq> [] \<and> startRef \<noteq> ''HEAD'' then [startRef] else []),
                             map_option (\<lambda>pr. (remote pr, branch pr)) (parseRemoteBranchRef startRef)))))"

text \<open>\<open>createWorktree\<close> from the point where the candidate is chosen.\<close>

definition createWorktreeAt ::
  "env \<Rightarrow> project_context \<Rightarrow> create_payload \<Rightarrow> string \<Rightarrow> candidate \<Rightarrow> string \<Rightarrow> string
     \<Rightarrow> string \<Rightarrow> string \<Rightarrow> worktree_info io" where
  "createWorktreeAt E context input mode cand preferredBranchName startRef
       ensureRemoteName ensureRemoteUrl =
     io_bind (if mode = ''existing''
              then createExisting E context input cand preferredBranchName
                     ensureRemoteName ensureRemoteUrl
              else createNew E context cand startRef) (\<lambda>(localBranch, worktreeAddArgs, inferredUpstream).
     io_bind (if ensureRemoteName \<noteq> [] \<and> ensureRemoteUrl \<noteq> []
              then ensureRemoteWithUrl E (primaryWorktree context) ensureRemoteName ensureRemoteUrl
              else io_ret ()) (\<lambda>_.
     io_bind (if mode = ''new''
              then (case parseRemoteBranchRef startRef of
                      Some pr \<Rightarrow> fetchRemoteBranchRef E (primaryWorktree context) (remote pr) (branch pr)
                    | None \<Rightarrow> io_ret ())
              else io_ret ()) (\<lambda>_.
     io_bind (runGitCommandOrThrow E (primaryWorktree context) worktreeAddArgs
                ''Failed to create git worktree'') (\<lambda>_.
     io_bind (runGitCommandOrThrow E (cand_directory cand) [''reset'', ''--hard'']
                ''Failed to populate worktree'') (\<lambda>_.
     io_bind (io_catch (syncProjectSandboxAdd E (projectID context) (primaryWorktree context)
                          (cand_directory cand))
                (\<lambda>e. console_log (''[GitService] Failed to sync OpenCode sandbox metadata (add): ''
                                   @ error_message e))) (\<lambda>_.
     io_bind (if in_setUpstream input
              then applyUpstreamConfiguration E (primaryWorktree context) (cand_directory cand)
                     localBranch (in_setUpstream input)
                     (trim (if in_upstreamRemote input \<noteq> [] then in_upstreamRemote input
                            else (case inferredUpstream of Some u \<Rightarrow> fst u | None \<Rightarrow> [])))
                     (trim (if in_upstreamBranch input \<noteq> [] then in_upstreamBranch input
                            else (case inferredUpstream of Some u \<Rightarrow> snd u | None \<Rightarrow> [])))
                     ensureRemoteName ensureRemoteUrl
              else io_ret ()) (\<lambda>_.
     io_bind (queueWorktreeStartScripts (cand_directory cand) (projectID context)
                (in_startCommand input)) (\<lambda>_.
     io_bind (runGitCommand E (cand_directory cand) [''rev-parse'', ''HEAD'']) (\<lambda>headResult.
     io_ret \<lparr>info_head = trim (cmd_stdout headResult), info_name = cand_name cand,
             info_branch = localBranch, info_path = cand_directory cand\<rparr>)))))))))"

definition createWorktree :: "env \<Rightarrow> string \<Rightarrow> create_payload \<Rightarrow> worktree_info io" where
  "createWorktree E directory input =
     (let mode = (if in_mode input = ''existing'' then ''existing'' else ''new'')
      in io_bind (resolveWorktreeProjectContext E directory) (\<lambda>context.
         io_bind (mkdir E (worktreeRoot context)) (\<lambda>_.
           let preferredName = trim (if in_worktreeName input \<noteq> [] then in_worktreeName input
                                     else in_name input);
               preferredBranchName = cleanBranchName (trim (in_branchName input));
               startRef = normalizeStartRef (in_startRef input);
               ensureRemoteName = trim (in_ensureRemoteName input);
               ensureRemoteUrl = trim (in_ensureRemoteUrl input)
           in io_bind (resolveCandidateDirectory E (worktreeRoot context) preferredName
                         (if mode = ''new'' \<and> preferredBranchName \<noteq> [] then preferredBranchName else [])
                         (primaryWorktree context)) (\<lambda>cand.
                createWorktreeAt E context input mode cand preferredBranchName startRef
                  ensureRemoteName ensureRemoteUrl))))"

subsection \<open>A repository for the examples\<close>

text \<open>
  The answers of git in a repository at \<open>/repo\<close> with the root commits \<open>b2\<close> and \<open>a1\<close>, the
  branch \<open>main\<close> checked out in the primary worktree, and no other local branch. The
  remote-tracking ref \<open>refs/remotes/origin/feature\<close> exists once a fetch was run.
\<close>

definition repo_git :: "world \<Rightarrow> git_call \<Rightarrow> exec_result" where
  "repo_git w call =
     (case snd call of
        [a, b] \<Rightarrow>
          if [a, b] = [''rev-parse'', ''--show-toplevel''] then answer 0 (''/repo'' @ [CHR 0x0A]) []
          else if [a, b] = [''rev-parse'', ''--git-common-dir''] then answer 0 (''.git'' @ [CHR 0x0A]) []
          else if [a, b] = [''rev-parse'', ''HEAD''] then answer 0 (''c0ffee'' @ [CHR 0x0A]) []
          else answer 0 [] []
      | [a, b, c] \<Rightarrow>
          if a = ''rev-list'' then answer 0 (''b2'' @ [CHR 0x0A] @ ''a1'' @ [CHR 0x0A]) []
          else if [a, b, c] = [''worktree'', ''list'', ''--porcelain'']
            then answer 0 (''worktree /repo'' @ [CHR 0x0A] @ ''HEAD c0ffee'' @ [CHR 0x0A]
                           @ ''branch refs/heads/main'' @ [CHR 0x0A]) []
          else answer 0 [] []
      | [a, b, c, d] \<Rightarrow>
          if a = ''show-ref''
          then (if d = ''refs/heads/main''
                   \<or> (d = ''refs/remotes/origin/feature''
                       \<and> list_ex (\<lambda>c. take 1 (snd c) = [''fetch'']) (gitLog w))
                then answer 0 [] [] else answer 1 [] [])
          else answer 0 [] []
      | _ \<Rightarrow> answer 0 [] [])"

definition repo_world :: world where
  "repo_world = empty_world\<lparr>fs := [''/'' \<mapsto> Dir, ''/repo'' \<mapsto> Dir, ''/repo/.git'' \<mapsto> Dir]\<rparr>"

definition new_payload :: "string \<Rightarrow> string \<Rightarrow> create_payload" where
  "new_payload nm br =
     \<lparr>in_mode = ''new'', in_worktreeName = nm, in_name = [], in_branchName = br,
      in_existingBranch = [], in_startRef = [], in_startCommand = [], in_setUpstream = False,
      in_upstreamRemote = [], in_upstreamBranch = [], in_ensureRemoteName = [],
      in_ensureRemoteUrl = []\<rparr>"


section \<open>Frame conditions\<close>

text \<open>
  \<open>fs_kept w w'\<close>: every directory of \<open>w\<close> is a directory of \<open>w'\<close>, and every file of \<open>w\<close> is
  a file of \<open>w'\<close>, with the same content unless the content was blank; nothing is removed
  and nothing but a blank file is overwritten. \<open>only_git allowed w w'\<close>: the git calls of
  \<open>w'\<close> are those of \<open>w\<close> followed by calls whose arguments are all \<open>allowed\<close>. \<open>quiet\<close> adds
  that nothing was written through the adapter and no start script was queued.
\<close>

definition fs_kept :: "world \<Rightarrow> world \<Rightarrow> bool" where
  "fs_kept w w' =
     (\<forall>p. (fs w p = Some Dir \<longrightarrow> fs w' p = Some Dir)
        \<and> (\<forall>c. fs w p = Some (File c) \<longrightarrow>
               (\<exists>c'. fs w' p = Some (File c') \<and> (trim c \<noteq> [] \<longrightarrow> c' = c))))"

definition only_git :: "(string list \<Rightarrow> bool) \<Rightarrow> world \<Rightarrow> world \<Rightarrow> bool" where
  "only_git allowed w w' = (\<exists>cs. gitLog w' = gitLog w @ cs \<and> list_all (\<lambda>c. allowed (snd c)) cs)"

definition quiet :: "(string list \<Rightarrow> bool) \<Rightarrow> world \<Rightarrow> world \<Rightarrow> bool" where
  "quiet allowed w w' =
     (fs_kept w w' \<and> only_git allowed w w' \<and> denied w' = denied w
      \<and> adapterLog w' = adapterLog w \<and> queued w' = queued w)"



definition resolving :: "string list \<Rightarrow> bool" where
  "resolving args = (take 1 args = [''rev-parse''] \<or> take 1 args = [''rev-list''])"

text \<open>\<open>io_frame R m\<close>: every run of \<open>m\<close> takes a world to one related to it by \<open>R\<close>.\<close>

definition io_frame :: "(world \<Rightarrow> world \<Rightarrow> bool) \<Rightarrow> 'a io \<Rightarrow> bool" where
  "io_frame R m = (\<forall>w r w'. m w = (r, w') \<longrightarrow> R w w')"






section \<open>Taken and free candidates\<close>

text \<open>
  \<open>branch_found E primary w b\<close>: in the world \<open>w\<close>, and whatever git calls are logged after
  it, \<open>git show-ref --verify --quiet refs/heads/b\<close> succeeds; \<open>branch_missing\<close>: it fails.
  A candidate name is taken when its directory exists or, no branch name being given,
  the branch \<open>openchamber/name\<close> is found; it is free when its directory does not exist
  and, no branch name being given, the branch is missing.
\<close>

definition branch_found :: "env \<Rightarrow> string \<Rightarrow> world \<Rightarrow> string \<Rightarrow> bool" where
  "branch_found E primary w b =
     (\<forall>cs. exitCode (git E (w\<lparr>gitLog := gitLog w @ cs\<rparr>)
                   (normalizePath E primary,
                    [''show-ref'', ''--verify'', ''--quiet'', ''refs/heads/'' @ b])) = 0)"

definition branch_missing :: "env \<Rightarrow> string \<Rightarrow> world \<Rightarrow> string \<Rightarrow> bool" where
  "branch_missing E primary w b =
     (\<forall>cs. exitCode (git E (w\<lparr>gitLog := gitLog w @ cs\<rparr>)
                   (normalizePath E primary,
                    [''show-ref'', ''--verify'', ''--quiet'', ''refs/heads/'' @ b])) \<noteq> 0)"

definition candidate_taken :: "env \<Rightarrow> string \<Rightarrow> string \<Rightarrow> string \<Rightarrow> world \<Rightarrow> string \<Rightarrow> bool" where
  "candidate_taken E root explicitBranchName primary w nm =
     (fs w (path_join E [root, nm]) \<noteq> None
      \<or> (explicitBranchName = [] \<and> branch_found E primary w (''openchamber/'' @ nm)))"

definition candidate_free :: "env \<Rightarrow> string \<Rightarrow> string \<Rightarrow> string \<Rightarrow> world \<Rightarrow> string \<Rightarrow> bool" where
  "candidate_free E root explicitBranchName primary w nm =
     (fs w (path_join E [root, nm]) = None
      \<and> (explicitBranchName = [] \<longrightarrow> branch_missing E primary w (''openchamber/'' @ nm)))"

text \<open>\<open>io_yields Q m\<close>: every result that \<open>m\<close> returns satisfies \<open>Q\<close>.\<close>

definition io_yields :: "('a \<Rightarrow> bool) \<Rightarrow> 'a io \<Rightarrow> bool" where
  "io_yields Q m = (\<forall>w x w'. m w = (Inr x, w') \<longrightarrow> Q x)"

section \<open>The effects of a validation\<close>







section \<open>The project file\<close>



section \<open>Properties of the status mapping\<close>

text \<open>
  C8 (amended). \<open>mapStatus\<close> maps modified (0, 5) to M, added (1) and intent-to-add (9)
  to A, deleted (2, 6) to D, renamed (3) and intent-to-rename (10) to R, copied (4) to
  C, untracked (7) to ?, ignored (8) to !, type-changed (11) to T, each of the seven
  conflict states (12 to 18: added-by-us, added-by-them, deleted-by-us, deleted-by-them,
  both-added, both-deleted, both-modified) to U, and every status code outside the
  table to a single space.
\<close>

theorem mapStatus_table:
  "mapStatus 0 = ''M'' \<and> mapStatus 5 = ''M'' \<and> mapStatus 1 = ''A'' \<and> mapStatus 9 = ''A''
   \<and> mapStatus 2 = ''D'' \<and> mapStatus 6 = ''D'' \<and> mapStatus 3 = ''R'' \<and> mapStatus 10 = ''R''
   \<and> mapStatus 4 = ''C'' \<and> mapStatus 7 = ''?'' \<and> mapStatus 8 = ''!'' \<and> mapStatus 11 = ''T''
   \<and> mapStatus 12 = ''U'' \<and> mapStatus 13 = ''U'' \<and> mapStatus 14 = ''U'' \<and> mapStatus 15 = ''U''
   \<and> mapStatus 16 = ''U'' \<and> mapStatus 17 = ''U'' \<and> mapStatus 18 = ''U''
   \<and> (\<forall>s. s \<notin> fst ` set statusMap \<longrightarrow> mapStatus s = '' '')"
proof -
  have "\<forall>s. s \<notin> fst ` set statusMap \<longrightarrow> mapStatus s = '' ''"
    by (simp add: mapStatus_def map_of_eq_None_iff[THEN iffD2])
  moreover have "mapStatus 0 = ''M'' \<and> mapStatus 5 = ''M'' \<and> mapStatus 1 = ''A'' \<and> mapStatus 9 = ''A''
   \<and> mapStatus 2 = ''D'' \<and> mapStatus 6 = ''D'' \<and> mapStatus 3 = ''R'' \<and> mapStatus 10 = ''R''
   \<and> mapStatus 4 = ''C'' \<and> mapStatus 7 = ''?'' \<and> mapStatus 8 = ''!'' \<and> mapStatus 11 = ''T''"
    by (simp add: mapStatus_def statusMap_def)
  moreover have "mapStatus 12 = ''U'' \<and> mapStatus 13 = ''U'' \<and> mapStatus 14 = ''U'' \<and> mapStatus 15 = ''U''
   \<and> mapStatus 16 = ''U'' \<and> mapStatus 17 = ''U'' \<and> mapStatus 18 = ''U''"
    by (simp add: mapStatus_def statusMap_def)
  ultimately show ?thesis by simp
qed

theorem mapStatus_table_witness:
  "(19::nat) \<notin> fst ` set statusMap \<and> mapStatus 19 = '' '' \<and> mapStatus 18 = ''U''"
proof -
  have h: "(19::nat) \<notin> fst ` set statusMap" by (simp add: statusMap_def)
  then show ?thesis using mapStatus_table by blast
qed

text \<open>
  The table holds seven entries with the code U, not eight: the codes 12 to 18. The
  next code, 19, is outside the table and maps to a space.
\<close>

theorem mapStatus_conflict_states_counterexample:
  "count_list (map snd statusMap) ''U'' = 7 \<and> mapStatus 19 \<noteq> ''U''"
  by (simp add: statusMap_def mapStatus_def)

section \<open>Properties of worktree names\<close>

text \<open>
  C4 (the code at the failing input). The source strips trailing hyphens before it
  cuts the name to 80 characters, so a hyphen at position 80 of the stripped name
  survives as the last character: 79 letters followed by \<open>-b\<close> give 79 letters and a
  trailing hyphen.
\<close>

theorem slugWorktreeName_trailing_hyphen:
  "slugWorktreeName (replicate 79 (CHR ''a'') @ ''-b'') = replicate 79 (CHR ''a'') @ ''-''
   \<and> last (slugWorktreeName (replicate 79 (CHR ''a'') @ ''-b'')) = CHR ''-''"
  by code_simp

section \<open>Properties of remote branch references\<close>

lemma indexOf_None: "c \<notin> set s \<Longrightarrow> indexOf s c = None"
  by (induction s) auto

lemma indexOf_first: "c \<notin> set r \<Longrightarrow> indexOf (r @ c # b) c = Some (length r)"
  by (induction r) auto

lemma split_shape:
  assumes "r \<noteq> []" "CHR ''/'' \<notin> set r" "b \<noteq> []"
  shows "splitRemoteRef (r @ ''/'' @ b) = Some \<lparr>remote = r, branch = b, remoteRef = r @ ''/'' @ b, fullRef = ''refs/remotes/'' @ r @ ''/'' @ b\<rparr>"
  using assms by (simp add: splitRemoteRef_def indexOf_first)

lemma parse_rest:
  assumes "trim s = ''refs/remotes/'' @ rest \<or> trim s = ''remotes/'' @ rest
           \<or> (trim s = rest \<and> \<not> startsWith rest ''refs/remotes/'' \<and> \<not> startsWith rest ''remotes/'')"
  shows "parseRemoteBranchRef s = splitRemoteRef rest"
proof -
  have refs: "parseRemoteBranchRef v = splitRemoteRef rest" if "trim v = ''refs/remotes/'' @ rest" for v
  proof -
    have "startsWith (''refs/remotes/'' @ rest) (''refs/remotes/'' @ [])"
      by (simp only: startsWith_append startsWith.simps)
    then have sw: "startsWith (trim v) ''refs/remotes/''" using that by simp
    have "drop (length ''refs/remotes/'') (trim v) = rest" using that by simp
    then show ?thesis using sw that
      by (subst parseRemoteBranchRef.simps) (simp add: Let_def)
  qed
  consider (a) "trim s = ''refs/remotes/'' @ rest" | (b) "trim s = ''remotes/'' @ rest"
    | (c) "trim s = rest" "\<not> startsWith rest ''refs/remotes/''" "\<not> startsWith rest ''remotes/''"
    using assms by blast
  then show ?thesis
  proof cases
    case a
    then show ?thesis by (rule refs)
  next
    case b
    have n: "trim s \<noteq> []" using b by simp
    have 1: "\<not> startsWith (trim s) ''refs/remotes/''" using b by simp
    have "startsWith (''remotes/'' @ rest) (''remotes/'' @ [])"
      by (simp only: startsWith_append startsWith.simps)
    then have 2: "startsWith (trim s) ''remotes/''" using b by simp
    have "parseRemoteBranchRef s = parseRemoteBranchRef (''refs/'' @ trim s)"
      using n 1 2 by (subst parseRemoteBranchRef.simps) (simp add: Let_def)
    moreover have "trim (''refs/'' @ trim s) = ''refs/remotes/'' @ rest"
      using trim_refs_prefix[OF n] b by simp
    ultimately show ?thesis using refs by simp
  next
    case c
    show ?thesis
    proof (cases "rest = []")
      case True
      then show ?thesis using c
        by (subst parseRemoteBranchRef.simps) (simp add: Let_def splitRemoteRef_def)
    next
      case False
      then show ?thesis using c
        by (subst parseRemoteBranchRef.simps) (simp add: Let_def)
    qed
  qed
qed

lemma split_no_slash: "CHR ''/'' \<notin> set rest \<Longrightarrow> splitRemoteRef rest = None"
  by (simp add: splitRemoteRef_def indexOf_None)

lemma split_leading_slash: "splitRemoteRef (''/'' @ b) = None"
  by (simp add: splitRemoteRef_def)

lemma split_trailing_slash: "CHR ''/'' \<notin> set r \<Longrightarrow> splitRemoteRef (r @ ''/'') = None"
  by (simp add: splitRemoteRef_def indexOf_first)

lemma trim_literals:
  "trim ''origin/feature/x'' = ''origin/feature/x''"
  "trim ''refs/remotes/origin/feature/x'' = ''refs/remotes/origin/feature/x''"
  "trim ''remotes/origin/feature/x'' = ''remotes/origin/feature/x''"
  "trim ''main'' = ''main''" "trim ''/main'' = ''/main''" "trim ''main/'' = ''main/''"
  "trim ''origin/feature/'' = ''origin/feature/''" "trim ''remotes/x'' = ''remotes/x''"
  by (simp_all add: trim_def js_space_def)

text \<open>
  C5 (amended). \<open>parseRemoteBranchRef\<close> trims its input, drops one leading \<open>refs/remotes/\<close>
  or \<open>remotes/\<close>, and splits the rest at its first slash. When the rest has no slash, when
  its first character is the slash, and when its first slash is its last character, the
  result is \<open>null\<close>. When the rest is \<open>r/b\<close> with \<open>r\<close> not empty and without a slash and \<open>b\<close> not
  empty, the result has the remote \<open>r\<close> and the branch \<open>b\<close>, whatever \<open>b\<close> holds: a branch may
  end with a slash.
\<close>

theorem parseRemoteBranchRef_first_slash:
  "trim s = ''refs/remotes/'' @ rest \<or> trim s = ''remotes/'' @ rest
     \<or> (trim s = rest \<and> \<not> startsWith rest ''refs/remotes/'' \<and> \<not> startsWith rest ''remotes/'')
   \<longrightarrow>
     (CHR ''/'' \<notin> set rest \<longrightarrow> parseRemoteBranchRef s = None)
     \<and> (\<forall>b. rest = ''/'' @ b \<longrightarrow> parseRemoteBranchRef s = None)
     \<and> (\<forall>r. rest = r @ ''/'' \<and> CHR ''/'' \<notin> set r \<longrightarrow> parseRemoteBranchRef s = None)
     \<and> (\<forall>r b. rest = r @ ''/'' @ b \<and> r \<noteq> [] \<and> CHR ''/'' \<notin> set r \<and> b \<noteq> [] \<longrightarrow>
           parseRemoteBranchRef s
             = Some \<lparr>remote = r, branch = b, remoteRef = rest, fullRef = ''refs/remotes/'' @ rest\<rparr>)"
proof (intro impI conjI allI)
  assume a: "trim s = ''refs/remotes/'' @ rest \<or> trim s = ''remotes/'' @ rest
     \<or> (trim s = rest \<and> \<not> startsWith rest ''refs/remotes/'' \<and> \<not> startsWith rest ''remotes/'')"
  note p = parse_rest[OF a]
  show "parseRemoteBranchRef s = None" if "CHR ''/'' \<notin> set rest"
    using p that by (simp add: split_no_slash)
  show "parseRemoteBranchRef s = None" if "rest = ''/'' @ b" for b
    using p that split_leading_slash[of b] by simp
  show "parseRemoteBranchRef s = None" if "rest = r @ ''/'' \<and> CHR ''/'' \<notin> set r" for r
    using p that split_trailing_slash[of r] by simp
  show "parseRemoteBranchRef s
             = Some \<lparr>remote = r, branch = b, remoteRef = rest, fullRef = ''refs/remotes/'' @ rest\<rparr>"
    if "rest = r @ ''/'' @ b \<and> r \<noteq> [] \<and> CHR ''/'' \<notin> set r \<and> b \<noteq> []" for r b
    using p that split_shape[of r b] by simp
qed

text \<open>The three spellings of \<open>origin/feature/x\<close>, and three strings that parse to \<open>null\<close>.\<close>

theorem parseRemoteBranchRef_first_slash_witness:
  "parseRemoteBranchRef ''origin/feature/x'' =
     Some \<lparr>remote = ''origin'', branch = ''feature/x'', remoteRef = ''origin/feature/x'',
           fullRef = ''refs/remotes/origin/feature/x''\<rparr>
   \<and> parseRemoteBranchRef ''refs/remotes/origin/feature/x'' =
     Some \<lparr>remote = ''origin'', branch = ''feature/x'', remoteRef = ''origin/feature/x'',
           fullRef = ''refs/remotes/origin/feature/x''\<rparr>
   \<and> parseRemoteBranchRef ''remotes/origin/feature/x'' =
     Some \<lparr>remote = ''origin'', branch = ''feature/x'', remoteRef = ''origin/feature/x'',
           fullRef = ''refs/remotes/origin/feature/x''\<rparr>
   \<and> parseRemoteBranchRef ''main'' = None
   \<and> parseRemoteBranchRef ''/main'' = None
   \<and> parseRemoteBranchRef ''main/'' = None"
proof -
  note T = parseRemoteBranchRef_first_slash
  have shape: "''origin/feature/x'' = ''origin'' @ ''/'' @ ''feature/x'' \<and> ''origin'' \<noteq> []
               \<and> CHR ''/'' \<notin> set ''origin'' \<and> ''feature/x'' \<noteq> []"
    by simp
  have h1: "trim ''origin/feature/x'' = ''refs/remotes/'' @ ''origin/feature/x''
            \<or> trim ''origin/feature/x'' = ''remotes/'' @ ''origin/feature/x''
            \<or> (trim ''origin/feature/x'' = ''origin/feature/x''
                \<and> \<not> startsWith ''origin/feature/x'' ''refs/remotes/''
                \<and> \<not> startsWith ''origin/feature/x'' ''remotes/'')"
    by (simp add: trim_literals)
  have h2: "trim ''refs/remotes/origin/feature/x'' = ''refs/remotes/'' @ ''origin/feature/x''
            \<or> trim ''refs/remotes/origin/feature/x'' = ''remotes/'' @ ''origin/feature/x''
            \<or> (trim ''refs/remotes/origin/feature/x'' = ''origin/feature/x''
                \<and> \<not> startsWith ''origin/feature/x'' ''refs/remotes/''
                \<and> \<not> startsWith ''origin/feature/x'' ''remotes/'')"
    by (simp add: trim_literals)
  have h3: "trim ''remotes/origin/feature/x'' = ''refs/remotes/'' @ ''origin/feature/x''
            \<or> trim ''remotes/origin/feature/x'' = ''remotes/'' @ ''origin/feature/x''
            \<or> (trim ''remotes/origin/feature/x'' = ''origin/feature/x''
                \<and> \<not> startsWith ''origin/feature/x'' ''refs/remotes/''
                \<and> \<not> startsWith ''origin/feature/x'' ''remotes/'')"
    by (simp add: trim_literals)
  have h4: "trim ''main'' = ''refs/remotes/'' @ ''main'' \<or> trim ''main'' = ''remotes/'' @ ''main''
            \<or> (trim ''main'' = ''main'' \<and> \<not> startsWith ''main'' ''refs/remotes/''
                \<and> \<not> startsWith ''main'' ''remotes/'')"
    by (simp add: trim_literals)
  have h5: "trim ''/main'' = ''refs/remotes/'' @ ''/main'' \<or> trim ''/main'' = ''remotes/'' @ ''/main''
            \<or> (trim ''/main'' = ''/main'' \<and> \<not> startsWith ''/main'' ''refs/remotes/''
                \<and> \<not> startsWith ''/main'' ''remotes/'')"
    by (simp add: trim_literals)
  have h6: "trim ''main/'' = ''refs/remotes/'' @ ''main/'' \<or> trim ''main/'' = ''remotes/'' @ ''main/''
            \<or> (trim ''main/'' = ''main/'' \<and> \<not> startsWith ''main/'' ''refs/remotes/''
                \<and> \<not> startsWith ''main/'' ''remotes/'')"
    by (simp add: trim_literals)
  have 1: "parseRemoteBranchRef ''origin/feature/x'' =
     Some \<lparr>remote = ''origin'', branch = ''feature/x'', remoteRef = ''origin/feature/x'',
           fullRef = ''refs/remotes/'' @ ''origin/feature/x''\<rparr>"
    by (rule T[THEN mp, OF h1, THEN conjunct2, THEN conjunct2, THEN conjunct2, THEN spec, THEN spec,
          THEN mp, OF shape])
  have 2: "parseRemoteBranchRef ''refs/remotes/origin/feature/x'' =
     Some \<lparr>remote = ''origin'', branch = ''feature/x'', remoteRef = ''origin/feature/x'',
           fullRef = ''refs/remotes/'' @ ''origin/feature/x''\<rparr>"
    by (rule T[THEN mp, OF h2, THEN conjunct2, THEN conjunct2, THEN conjunct2, THEN spec, THEN spec,
          THEN mp, OF shape])
  have 3: "parseRemoteBranchRef ''remotes/origin/feature/x'' =
     Some \<lparr>remote = ''origin'', branch = ''feature/x'', remoteRef = ''origin/feature/x'',
           fullRef = ''refs/remotes/'' @ ''origin/feature/x''\<rparr>"
    by (rule T[THEN mp, OF h3, THEN conjunct2, THEN conjunct2, THEN conjunct2, THEN spec, THEN spec,
          THEN mp, OF shape])
  have n4: "CHR ''/'' \<notin> set ''main''" by simp
  have 4: "parseRemoteBranchRef ''main'' = None"
    by (rule T[THEN mp, OF h4, THEN conjunct1, THEN mp, OF n4])
  have n5: "''/main'' = ''/'' @ ''main''" by simp
  have 5: "parseRemoteBranchRef ''/main'' = None"
    by (rule T[THEN mp, OF h5, THEN conjunct2, THEN conjunct1, THEN spec, THEN mp, OF n5])
  have n6: "''main/'' = ''main'' @ ''/'' \<and> CHR ''/'' \<notin> set ''main''" by simp
  have 6: "parseRemoteBranchRef ''main/'' = None"
    by (rule T[THEN mp, OF h6, THEN conjunct2, THEN conjunct2, THEN conjunct1, THEN spec, THEN mp, OF n6])
  show ?thesis using 1 2 3 4 5 6 by simp
qed

text \<open>
  \<open>origin/feature/\<close> ends with a slash and parses, to the branch \<open>feature/\<close>. \<open>remotes/x\<close> has
  one slash, neither first nor last, and parses to \<open>null\<close>: its prefix \<open>remotes/\<close> is dropped
  and the rest \<open>x\<close> has no slash.
\<close>

theorem parseRemoteBranchRef_edges_counterexample:
  "parseRemoteBranchRef ''origin/feature/'' =
     Some \<lparr>remote = ''origin'', branch = ''feature/'', remoteRef = ''origin/feature/'',
           fullRef = ''refs/remotes/origin/feature/''\<rparr>
   \<and> parseRemoteBranchRef ''remotes/x'' = None"
proof -
  have "parseRemoteBranchRef ''origin/feature/'' = splitRemoteRef ''origin/feature/''"
    by (rule parse_rest) (simp add: trim_literals)
  moreover have "parseRemoteBranchRef ''remotes/x'' = splitRemoteRef ''x''"
    by (rule parse_rest) (simp add: trim_literals)
  ultimately show ?thesis
    by (simp add: splitRemoteRef_def)
qed

section \<open>Properties of merge and rebase\<close>

lemma startsWith_iff: "startsWith s p \<longleftrightarrow> (\<exists>ss. s = p @ ss)"
  by (induction s p rule: startsWith.induct) auto

lemma startsWith_take: "startsWith s p \<longleftrightarrow> take (length p) s = p"
  by (induction s p rule: startsWith.induct) auto

lemma str_includes_iff: "str_includes s n \<longleftrightarrow> (\<exists>ps ss. s = ps @ n @ ss)"
proof (induction s)
  case Nil
  then show ?case by auto
next
  case (Cons c cs)
  show ?case
  proof
    assume "str_includes (c # cs) n"
    then consider "startsWith (c # cs) n" | "str_includes cs n" by auto
    then show "\<exists>ps ss. c # cs = ps @ n @ ss"
    proof cases
      case 1
      then obtain ss where "c # cs = n @ ss" using startsWith_iff by blast
      then have "c # cs = [] @ n @ ss" by simp
      then show ?thesis by blast
    next
      case 2
      then obtain ps ss where "cs = ps @ n @ ss" using Cons.IH by blast
      then have "c # cs = (c # ps) @ n @ ss" by simp
      then show ?thesis by blast
    qed
  next
    assume "\<exists>ps ss. c # cs = ps @ n @ ss"
    then obtain ps ss where e: "c # cs = ps @ n @ ss" by blast
    show "str_includes (c # cs) n"
    proof (cases ps)
      case Nil
      then have "startsWith (c # cs) n" using e startsWith_iff by force
      then show ?thesis by simp
    next
      case (Cons a ps')
      then have "cs = ps' @ n @ ss" using e by simp
      then have "str_includes cs n" using Cons.IH by blast
      then show ?thesis by simp
    qed
  qed
qed

lemma str_includes_suffix: "str_includes s (p @ q) \<Longrightarrow> str_includes s q"
proof -
  assume "str_includes s (p @ q)"
  then obtain ps ss where "s = ps @ (p @ q) @ ss" using str_includes_iff by blast
  then have "s = (ps @ p) @ q @ ss" by simp
  then show ?thesis using str_includes_iff by blast
qed

lemma merge_conflict_phrase: "str_includes s ''merge conflict'' \<Longrightarrow> str_includes s ''conflict''"
  using str_includes_suffix[of s "''merge ''" "''conflict''"] by simp

lemma startsWith_two: "startsWith s [a, b] \<longleftrightarrow> take 2 s = [a, b]"
  using startsWith_take[of s "[a, b]"] by (simp add: numeral_2_eq_2)

lemma conflictFilesOf_prefix:
  "conflictFilesOf out =
     map (\<lambda>line. trim (drop 3 line))
       (filter (\<lambda>line. take 2 line \<in> {''UU'', ''AA'', ''DD''}) (str_split (CHR 0x0A) out))"
  unfolding conflictFilesOf_def
  by (rule arg_cong[where f="map _"], rule filter_cong) (auto simp: startsWith_two)

lemma merge_outcomes:
  "(let c = (normalizePath E directory, [''merge'', b]);
        r = git E w c;
        w1 = w\<lparr>gitLog := gitLog w @ [c]\<rparr>;
        s = git E w1 (normalizePath E directory, [''status'', ''--porcelain'']);
        out = toLowerCase (stdout r @ stderr r)
    in fst (merge E directory b w) =
         (if exitCode r = 0 then Inr \<lparr>success = True, conflict = Some False, conflictFiles = None\<rparr>
          else if str_includes out ''conflict'' \<or> str_includes out ''automatic merge failed''
          then Inr \<lparr>success = False, conflict = Some True,
                    conflictFiles = Some (map (\<lambda>line. trim (drop 3 line))
                       (filter (\<lambda>line. take 2 line \<in> {''UU'', ''AA'', ''DD''}) (str_split (CHR 0x0A) (stdout s))))\<rparr>
          else Inl (Error (if stderr r = [] then ''Merge failed'' else stderr r))))"
  using merge_conflict_phrase
  by (auto simp: Let_def merge_def io_bind_def execGit_def io_ret_def io_throw_def conflictFilesOf_prefix)

lemma rebase_outcomes:
  "(let c = (normalizePath E directory, [''rebase'', b]);
        r = git E w c;
        w1 = w\<lparr>gitLog := gitLog w @ [c]\<rparr>;
        s = git E w1 (normalizePath E directory, [''status'', ''--porcelain'']);
        out = toLowerCase (stdout r @ stderr r)
    in fst (rebase E directory b w) =
         (if exitCode r = 0 then Inr \<lparr>success = True, conflict = Some False, conflictFiles = None\<rparr>
          else if str_includes out ''conflict'' \<or> str_includes out ''could not apply''
          then Inr \<lparr>success = False, conflict = Some True,
                    conflictFiles = Some (map (\<lambda>line. trim (drop 3 line))
                       (filter (\<lambda>line. take 2 line \<in> {''UU'', ''AA'', ''DD''}) (str_split (CHR 0x0A) (stdout s))))\<rparr>
          else Inl (Error (if stderr r = [] then ''Rebase failed'' else stderr r))))"
  using merge_conflict_phrase
  by (auto simp: Let_def rebase_def io_bind_def execGit_def io_ret_def io_throw_def conflictFilesOf_prefix)

lemma posix_env_simps:
  "git (posix_env win g) = g" "isWindows (posix_env win g) = win"
  "homedir (posix_env win g) = ''/home/u''"
  by (simp_all add: posix_env_def)

text \<open>
  C3 (amended). With \<open>r\<close> the answer of the merge (rebase) command and \<open>s\<close> the answer
  of the porcelain status command run after it: exit code 0 gives success; a nonzero
  exit whose lower-cased stdout and stderr contain \<open>conflict\<close> or, for merge,
  \<open>automatic merge failed\<close>, for rebase, \<open>could not apply\<close>, gives the conflict outcome
  with the paths of the status lines whose first two characters are UU, AA or DD; any
  other nonzero exit throws the raw stderr, or a fixed message when stderr is empty.
\<close>

theorem merge_rebase_outcomes:
  "(let c = (normalizePath E directory, [''merge'', b]);
        r = git E w c;
        w1 = w\<lparr>gitLog := gitLog w @ [c]\<rparr>;
        s = git E w1 (normalizePath E directory, [''status'', ''--porcelain'']);
        out = toLowerCase (stdout r @ stderr r)
    in fst (merge E directory b w) =
         (if exitCode r = 0 then Inr \<lparr>success = True, conflict = Some False, conflictFiles = None\<rparr>
          else if str_includes out ''conflict'' \<or> str_includes out ''automatic merge failed''
          then Inr \<lparr>success = False, conflict = Some True,
                    conflictFiles = Some (map (\<lambda>line. trim (drop 3 line))
                       (filter (\<lambda>line. take 2 line \<in> {''UU'', ''AA'', ''DD''}) (str_split (CHR 0x0A) (stdout s))))\<rparr>
          else Inl (Error (if stderr r = [] then ''Merge failed'' else stderr r))))
   \<and> (let c = (normalizePath E directory, [''rebase'', b]);
        r = git E w c;
        w1 = w\<lparr>gitLog := gitLog w @ [c]\<rparr>;
        s = git E w1 (normalizePath E directory, [''status'', ''--porcelain'']);
        out = toLowerCase (stdout r @ stderr r)
    in fst (rebase E directory b w) =
         (if exitCode r = 0 then Inr \<lparr>success = True, conflict = Some False, conflictFiles = None\<rparr>
          else if str_includes out ''conflict'' \<or> str_includes out ''could not apply''
          then Inr \<lparr>success = False, conflict = Some True,
                    conflictFiles = Some (map (\<lambda>line. trim (drop 3 line))
                       (filter (\<lambda>line. take 2 line \<in> {''UU'', ''AA'', ''DD''}) (str_split (CHR 0x0A) (stdout s))))\<rparr>
          else Inl (Error (if stderr r = [] then ''Rebase failed'' else stderr r))))"
  using merge_outcomes[of E directory b w] rebase_outcomes[of E directory b w] by blast

text \<open>The example of the specification, for merge and for rebase.\<close>

theorem merge_rebase_outcomes_witness:
  "fst (merge (posix_env False conflict_git) ''/repo'' ''feature'' empty_world) =
     Inr \<lparr>success = False, conflict = Some True, conflictFiles = Some [''x.txt'']\<rparr>
   \<and> fst (rebase (posix_env False conflict_git) ''/repo'' ''main'' empty_world) =
     Inr \<lparr>success = False, conflict = Some True, conflictFiles = Some [''x.txt'']\<rparr>"
proof -
  have a: "toLowerCase ''CONFLICT (content): Merge conflict in x.txt'' = ''conflict (content): merge conflict in x.txt''"
    by code_simp
  have b: "str_includes ''conflict (content): merge conflict in x.txt'' ''conflict''" by code_simp
  have c: "trim ''x.txt'' = ''x.txt''" by code_simp
  have d: "trim [] = []"  by code_simp
  show ?thesis
    using merge_rebase_outcomes[of "posix_env False conflict_git" "''/repo''" "''feature''" empty_world]
      merge_rebase_outcomes[of "posix_env False conflict_git" "''/repo''" "''main''" empty_world]
    by (simp add: posix_env_simps conflict_git_def answer_def a b c d Let_def normalizePath_def)
qed

text \<open>
  The phrase \<open>could not apply\<close> alone is no conflict for merge, and \<open>automatic merge failed\<close>
  alone none for rebase; with an empty stderr the error carries the fixed message.
\<close>

theorem merge_rebase_phrases_counterexample:
  "fst (merge (posix_env False other_phrase_git) ''/repo'' ''feature'' empty_world) = Inl (Error ''Merge failed'')
   \<and> fst (rebase (posix_env False other_phrase_git) ''/repo'' ''main'' empty_world) = Inl (Error ''Rebase failed'')"
  by code_simp

section \<open>Properties of the git identity\<close>

lemma concat_map_single: "(\<forall>c\<in>set k. f c = [c]) \<Longrightarrow> concat (map f k) = k"
  by (induction k) auto

lemma safe_no_quote: "set k \<inter> set dangerousChars = {} \<Longrightarrow> CHR 0x27 \<notin> set k \<and> CHR 0x5C \<notin> set k"
  by (auto simp: dangerousChars_def)

lemma list_ex_dangerous: "list_ex (\<lambda>c. c \<in> set dangerousChars) k \<longleftrightarrow> set k \<inter> set dangerousChars \<noteq> {}"
  by (auto simp: list_ex_iff)

lemma map_backslash_id: "CHR 0x5C \<notin> set k \<Longrightarrow> map (\<lambda>c. if c = CHR 0x5C then CHR ''/'' else c) k = k"
  by (induction k) auto

lemma msysPath_safe:
  assumes "set k \<inter> set dangerousChars = {}"
  shows "msysPath k =
     (if (case k of d # c1 # c2 # rest \<Rightarrow> is_letter d \<and> c1 = CHR '':'' \<and> c2 = CHR ''/'' | _ \<Rightarrow> False)
      then CHR ''/'' # toLowerChar (hd k) # drop 2 k else k)"
proof -
  have "map (\<lambda>c. if c = CHR 0x5C then CHR ''/'' else c) k = k"
    using assms safe_no_quote map_backslash_id by blast
  then show ?thesis by (auto simp: msysPath_def Let_def split: list.splits)
qed

lemma buildSshCommand_safe:
  assumes "set k \<inter> set dangerousChars = {}"
  shows "buildSshCommand E k =
     Inr (''ssh -i '' @ [CHR 0x27]
          @ (if isWindows E \<and> (case k of d # c1 # c2 # rest \<Rightarrow> is_letter d \<and> c1 = CHR '':'' \<and> c2 = CHR ''/'' | _ \<Rightarrow> False)
             then CHR ''/'' # toLowerChar (hd k) # drop 2 k else k)
          @ [CHR 0x27] @ '' -o IdentitiesOnly=yes'')"
proof -
  have q: "concat (map (\<lambda>c. if c = CHR 0x27 then [CHR 0x27, CHR 0x5C, CHR 0x27, CHR 0x27] else [c]) k) = k"
    using assms safe_no_quote by (intro concat_map_single) auto
  have n: "\<not> list_ex (\<lambda>c. c \<in> set dangerousChars) k" using assms list_ex_dangerous by blast
  show ?thesis
    using n q msysPath_safe[OF assms]
    by (simp add: buildSshCommand_def escapeSshKeyPath_def)
qed

lemma setGitIdentity_rejects:
  assumes "set k \<inter> set dangerousChars \<noteq> {}"
  shows "setGitIdentity E repo directory userName userEmail (Some k) w =
           (Inl (Error (''SSH key path contains invalid characters: '' @ k)), w)"
proof -
  have "list_ex (\<lambda>c. c \<in> set dangerousChars) k" using assms list_ex_dangerous by blast
  moreover have "k \<noteq> []" using assms by auto
  ultimately show ?thesis
    by (simp add: setGitIdentity_def buildSshCommand_def escapeSshKeyPath_def io_throw_def)
qed

lemma setGitIdentity_writes:
  assumes "k \<noteq> []" "buildSshCommand E k = Inr cmd"
  shows "fst (setGitIdentity E repo directory userName userEmail (Some k) w) = Inr True
     \<and> ((''core.sshCommand'', cmd) \<in> set (adapterLog (snd (setGitIdentity E repo directory userName userEmail (Some k) w)))
        \<or> (normalizePath E directory, [''config'', ''core.sshCommand'', cmd])
            \<in> set (gitLog (snd (setGitIdentity E repo directory userName userEmail (Some k) w))))"
  using assms
  by (cases repo)
     (auto simp: setGitIdentity_def setGitIdentityRaw_def io_bind_def io_catch_def io_ret_def
        execGit_def repoSetConfig_def console_log_def Let_def)

text \<open>
  C9 (amended). An SSH key path holding one of the denied characters makes
  \<open>setGitIdentity\<close> throw with the world untouched: no git call, no write through the
  adapter. For a non-empty path without such a character the call succeeds and writes a
  \<open>core.sshCommand\<close> that embeds, between single quotes, the path itself, except that on
  Windows a leading drive \<open>X:/\<close> is rewritten to \<open>/x/\<close>.
\<close>

theorem setGitIdentity_ssh_key:
  "(set k \<inter> set dangerousChars \<noteq> {} \<longrightarrow>
      setGitIdentity E repo directory userName userEmail (Some k) w =
        (Inl (Error (''SSH key path contains invalid characters: '' @ k)), w))
   \<and> (k \<noteq> [] \<and> set k \<inter> set dangerousChars = {} \<longrightarrow>
      (let cmd = ''ssh -i '' @ [CHR 0x27]
                 @ (if isWindows E \<and> (case k of d # c1 # c2 # rest \<Rightarrow>
                                          is_letter d \<and> c1 = CHR '':'' \<and> c2 = CHR ''/'' | _ \<Rightarrow> False)
                    then CHR ''/'' # toLowerChar (hd k) # drop 2 k else k)
                 @ [CHR 0x27] @ '' -o IdentitiesOnly=yes'';
           out = setGitIdentity E repo directory userName userEmail (Some k) w
       in buildSshCommand E k = Inr cmd
          \<and> fst out = Inr True
          \<and> ((''core.sshCommand'', cmd) \<in> set (adapterLog (snd out))
             \<or> (normalizePath E directory, [''config'', ''core.sshCommand'', cmd]) \<in> set (gitLog (snd out)))))"
proof (intro conjI impI)
  assume "set k \<inter> set dangerousChars \<noteq> {}"
  then show "setGitIdentity E repo directory userName userEmail (Some k) w =
        (Inl (Error (''SSH key path contains invalid characters: '' @ k)), w)"
    by (rule setGitIdentity_rejects)
next
  assume a: "k \<noteq> [] \<and> set k \<inter> set dangerousChars = {}"
  then have b: "buildSshCommand E k =
     Inr (''ssh -i '' @ [CHR 0x27]
          @ (if isWindows E \<and> (case k of d # c1 # c2 # rest \<Rightarrow> is_letter d \<and> c1 = CHR '':'' \<and> c2 = CHR ''/'' | _ \<Rightarrow> False)
             then CHR ''/'' # toLowerChar (hd k) # drop 2 k else k)
          @ [CHR 0x27] @ '' -o IdentitiesOnly=yes'')"
    using buildSshCommand_safe by blast
  from a have k: "k \<noteq> []" by simp
  show "(let cmd = ''ssh -i '' @ [CHR 0x27]
                 @ (if isWindows E \<and> (case k of d # c1 # c2 # rest \<Rightarrow>
                                          is_letter d \<and> c1 = CHR '':'' \<and> c2 = CHR ''/'' | _ \<Rightarrow> False)
                    then CHR ''/'' # toLowerChar (hd k) # drop 2 k else k)
                 @ [CHR 0x27] @ '' -o IdentitiesOnly=yes'';
           out = setGitIdentity E repo directory userName userEmail (Some k) w
       in buildSshCommand E k = Inr cmd
          \<and> fst out = Inr True
          \<and> ((''core.sshCommand'', cmd) \<in> set (adapterLog (snd out))
             \<or> (normalizePath E directory, [''config'', ''core.sshCommand'', cmd]) \<in> set (gitLog (snd out))))"
    unfolding Let_def using b setGitIdentity_writes[OF k b] by blast
qed

text \<open>The path of the specification is rejected; a plain path is embedded as it is.\<close>

theorem setGitIdentity_ssh_key_witness:
  "setGitIdentity (posix_env False silent_git) None ''/repo'' ''Ada'' ''ada@example.org''
       (Some ''; rm -rf /'') empty_world =
     (Inl (Error ''SSH key path contains invalid characters: ; rm -rf /''), empty_world)
   \<and> buildSshCommand (posix_env False silent_git) ''/home/u/.ssh/id'' =
     Inr (''ssh -i '' @ [CHR 0x27] @ ''/home/u/.ssh/id'' @ [CHR 0x27] @ '' -o IdentitiesOnly=yes'')"
proof -
  have 1: "set ''; rm -rf /'' \<inter> set dangerousChars \<noteq> {}" by (simp add: dangerousChars_def)
  have 2: "''/home/u/.ssh/id'' \<noteq> [] \<and> set ''/home/u/.ssh/id'' \<inter> set dangerousChars = {}"
    by (simp add: dangerousChars_def)
  have a: "setGitIdentity (posix_env False silent_git) None ''/repo'' ''Ada'' ''ada@example.org''
       (Some ''; rm -rf /'') empty_world =
     (Inl (Error (''SSH key path contains invalid characters: '' @ ''; rm -rf /'')), empty_world)"
    using setGitIdentity_ssh_key[of "''; rm -rf /''" "posix_env False silent_git" None "''/repo''"
        "''Ada''" "''ada@example.org''" empty_world] 1 by blast
  have b: "buildSshCommand (posix_env False silent_git) ''/home/u/.ssh/id'' =
     Inr (''ssh -i '' @ [CHR 0x27]
          @ (if isWindows (posix_env False silent_git)
                \<and> (case ''/home/u/.ssh/id'' of d # c1 # c2 # rest \<Rightarrow>
                      is_letter d \<and> c1 = CHR '':'' \<and> c2 = CHR ''/'' | _ \<Rightarrow> False)
             then CHR ''/'' # toLowerChar (hd ''/home/u/.ssh/id'') # drop 2 ''/home/u/.ssh/id''
             else ''/home/u/.ssh/id'')
          @ [CHR 0x27] @ '' -o IdentitiesOnly=yes'')"
    using setGitIdentity_ssh_key[of "''/home/u/.ssh/id''" "posix_env False silent_git" None "''/repo''"
        "''Ada''" "''ada@example.org''" empty_world] 2 unfolding Let_def by blast
  show ?thesis using a b by (simp add: posix_env_simps)
qed

text \<open>
  On Windows the path \<open>C:/keys/id\<close> has no denied character, and the command written
  embeds \<open>/c/keys/id\<close>: the path given is not part of it.
\<close>

theorem setGitIdentity_windows_counterexample:
  "buildSshCommand (posix_env True silent_git) ''C:/keys/id'' =
     Inr (''ssh -i '' @ [CHR 0x27] @ ''/c/keys/id'' @ [CHR 0x27] @ '' -o IdentitiesOnly=yes'')
   \<and> \<not> str_includes (''ssh -i '' @ [CHR 0x27] @ ''/c/keys/id'' @ [CHR 0x27] @ '' -o IdentitiesOnly=yes'')
          ''C:/keys/id''"
  by code_simp

section \<open>Properties of the raw status\<close>

lemma checkInProgress_none:
  assumes "fs w (path_join E [path_join E [directory, ''.git''], ''MERGE_HEAD'']) = None"
      and "fs w (path_join E [path_join E [directory, ''.git''], ''rebase-merge'']) = None"
      and "fs w (path_join E [path_join E [directory, ''.git''], ''rebase-apply'']) = None"
  shows "checkInProgressOperations E directory w = (Inr (None, None), w)"
  using assms
  by (simp add: checkInProgressOperations_def Let_def io_bind_def io_catch_def io_ret_def
      checkPathExists_def stat_def)

text \<open>
  C10. When the status command exits nonzero, \<open>getGitStatusRaw\<close> returns (it does not
  throw) the status with an empty current branch, no tracking branch, ahead and behind
  0, no files and \<open>isClean\<close> true; a successful status command with an empty output, in
  a directory without merge or rebase markers, returns that same value.
\<close>

theorem getGitStatusRaw_nonzero_exit:
  "(let r = git E w (normalizePath E directory, [''status'', ''--porcelain=v1'', ''-b'', ''-uall'']);
        unknown = \<lparr>current = [], tracking = None, ahead = 0, behind = 0, files = [],
                   isClean = True, mergeInProgress = None, rebaseInProgress = None\<rparr>
    in (exitCode r \<noteq> 0 \<longrightarrow> fst (getGitStatusRaw E directory w) = Inr unknown)
       \<and> (exitCode r = 0 \<and> stdout r = []
           \<and> fs w (path_join E [path_join E [directory, ''.git''], ''MERGE_HEAD'']) = None
           \<and> fs w (path_join E [path_join E [directory, ''.git''], ''rebase-merge'']) = None
           \<and> fs w (path_join E [path_join E [directory, ''.git''], ''rebase-apply'']) = None
           \<longrightarrow> fst (getGitStatusRaw E directory w) = Inr unknown))"
proof -
  let ?c = "(normalizePath E directory, [''status'', ''--porcelain=v1'', ''-b'', ''-uall''])"
  let ?w1 = "w\<lparr>gitLog := gitLog w @ [?c]\<rparr>"
  have t: "trim [] = []" by (simp add: trim_def)
  have 1: "exitCode (git E w ?c) \<noteq> 0 \<Longrightarrow> fst (getGitStatusRaw E directory w) =
      Inr \<lparr>current = [], tracking = None, ahead = 0, behind = 0, files = [],
                   isClean = True, mergeInProgress = None, rebaseInProgress = None\<rparr>"
    by (simp add: getGitStatusRaw_def io_bind_def execGit_def Let_def io_ret_def)
  have 2: "fst (getGitStatusRaw E directory w) =
      Inr \<lparr>current = [], tracking = None, ahead = 0, behind = 0, files = [],
                   isClean = True, mergeInProgress = None, rebaseInProgress = None\<rparr>"
    if a: "exitCode (git E w ?c) = 0" "stdout (git E w ?c) = []"
      "fs w (path_join E [path_join E [directory, ''.git''], ''MERGE_HEAD'']) = None"
      "fs w (path_join E [path_join E [directory, ''.git''], ''rebase-merge'']) = None"
      "fs w (path_join E [path_join E [directory, ''.git''], ''rebase-apply'']) = None"
  proof -
    have "checkInProgressOperations E directory ?w1 = (Inr (None, None), ?w1)"
      using a by (intro checkInProgress_none) simp_all
    then show ?thesis using a
      by (simp add: getGitStatusRaw_def io_bind_def execGit_def Let_def io_ret_def t)
  qed
  show ?thesis unfolding Let_def using 1 2 by blast
qed

theorem getGitStatusRaw_nonzero_exit_witness:
  "fst (getGitStatusRaw (posix_env False not_a_repository_git) ''/elsewhere'' empty_world) =
     Inr \<lparr>current = [], tracking = None, ahead = 0, behind = 0, files = [],
          isClean = True, mergeInProgress = None, rebaseInProgress = None\<rparr>
   \<and> fst (getGitStatusRaw (posix_env False silent_git) ''/repo'' empty_world) =
     Inr \<lparr>current = [], tracking = None, ahead = 0, behind = 0, files = [],
          isClean = True, mergeInProgress = None, rebaseInProgress = None\<rparr>"
proof -
  have 1: "exitCode (git (posix_env False not_a_repository_git) empty_world
             (normalizePath (posix_env False not_a_repository_git) ''/elsewhere'',
              [''status'', ''--porcelain=v1'', ''-b'', ''-uall''])) \<noteq> 0"
    by (simp add: posix_env_simps not_a_repository_git_def answer_def)
  have 2: "exitCode (git (posix_env False silent_git) empty_world
             (normalizePath (posix_env False silent_git) ''/repo'',
              [''status'', ''--porcelain=v1'', ''-b'', ''-uall''])) = 0
        \<and> stdout (git (posix_env False silent_git) empty_world
             (normalizePath (posix_env False silent_git) ''/repo'',
              [''status'', ''--porcelain=v1'', ''-b'', ''-uall''])) = []
        \<and> fs empty_world (path_join (posix_env False silent_git)
             [path_join (posix_env False silent_git) [''/repo'', ''.git''], ''MERGE_HEAD'']) = None
        \<and> fs empty_world (path_join (posix_env False silent_git)
             [path_join (posix_env False silent_git) [''/repo'', ''.git''], ''rebase-merge'']) = None
        \<and> fs empty_world (path_join (posix_env False silent_git)
             [path_join (posix_env False silent_git) [''/repo'', ''.git''], ''rebase-apply'']) = None"
    by (simp add: posix_env_simps silent_git_def answer_def empty_world_def)
  show ?thesis
    using getGitStatusRaw_nonzero_exit[of "posix_env False not_a_repository_git" empty_world "''/elsewhere''"]
      getGitStatusRaw_nonzero_exit[of "posix_env False silent_git" empty_world "''/repo''"] 1 2
    unfolding Let_def by blast
qed

section \<open>Frame lemmas\<close>

lemma fs_kept_refl: "fs_kept w w"
  by (simp add: fs_kept_def)

lemma fs_kept_trans: "fs_kept a b \<Longrightarrow> fs_kept b c \<Longrightarrow> fs_kept a c"
  unfolding fs_kept_def by (metis)

lemma only_git_refl: "only_git allowed w w"
  by (simp add: only_git_def)

lemma only_git_trans: "only_git allowed a b \<Longrightarrow> only_git allowed b c \<Longrightarrow> only_git allowed a c"
  unfolding only_git_def by (metis append.assoc list_all_append)


lemma quiet_refl: "quiet allowed w w"
  by (simp add: quiet_def fs_kept_refl only_git_refl)

lemma quiet_trans: "quiet allowed a b \<Longrightarrow> quiet allowed b c \<Longrightarrow> quiet allowed a c"
  unfolding quiet_def using fs_kept_trans only_git_trans by metis


lemma frame_ret: "io_frame (quiet A) (io_ret x)"
  by (simp add: io_frame_def io_ret_def quiet_refl)

lemma frame_throw: "io_frame (quiet A) (io_throw e)"
  by (simp add: io_frame_def io_throw_def quiet_refl)

lemma frame_bind:
  assumes "io_frame (quiet A) m" "\<And>x. io_frame (quiet A) (f x)"
  shows "io_frame (quiet A) (io_bind m f)"
  unfolding io_frame_def io_bind_def
proof (intro allI impI)
  fix w r w'
  assume a: "(case m w of (Inl e, w') \<Rightarrow> (Inl e, w') | (Inr x, w') \<Rightarrow> f x w') = (r, w')"
  obtain r1 w1 where m: "m w = (r1, w1)" by (cases "m w")
  then have q1: "quiet A w w1" using assms(1) by (simp add: io_frame_def)
  show "quiet A w w'"
  proof (cases r1)
    case (Inl e)
    then show ?thesis using a m q1 by simp
  next
    case (Inr x)
    then have "f x w1 = (r, w')" using a m by simp
    then have "quiet A w1 w'" using assms(2) by (simp add: io_frame_def)
    then show ?thesis using q1 quiet_trans by blast
  qed
qed

lemma frame_catch:
  assumes "io_frame (quiet A) m" "\<And>e. io_frame (quiet A) (h e)"
  shows "io_frame (quiet A) (io_catch m h)"
  unfolding io_frame_def io_catch_def
proof (intro allI impI)
  fix w r w'
  assume a: "(case m w of (Inl e, w') \<Rightarrow> h e w' | (Inr x, w') \<Rightarrow> (Inr x, w')) = (r, w')"
  obtain r1 w1 where m: "m w = (r1, w1)" by (cases "m w")
  then have q1: "quiet A w w1" using assms(1) by (simp add: io_frame_def)
  show "quiet A w w'"
  proof (cases r1)
    case (Inr x)
    then show ?thesis using a m q1 by simp
  next
    case (Inl e)
    then have "h e w1 = (r, w')" using a m by simp
    then have "quiet A w1 w'" using assms(2) by (simp add: io_frame_def)
    then show ?thesis using q1 quiet_trans by blast
  qed
qed

lemma frame_if: "io_frame R a \<Longrightarrow> io_frame R b \<Longrightarrow> io_frame R (if c then a else b)"
  by simp




lemma frame_execGit: "A args \<Longrightarrow> io_frame (quiet A) (execGit E args cwd)"
  by (auto simp: io_frame_def execGit_def Let_def quiet_def fs_kept_def only_git_def)

lemma frame_runGitCommand: "A args \<Longrightarrow> io_frame (quiet A) (runGitCommand E cwd args)"
  unfolding runGitCommand_def by (intro frame_bind frame_execGit frame_ret)

lemma frame_runGitCommandOrThrow: "A args \<Longrightarrow> io_frame (quiet A) (runGitCommandOrThrow E cwd args fb)"
  unfolding runGitCommandOrThrow_def
  by (intro frame_bind frame_runGitCommand frame_if frame_throw frame_ret)

lemma frame_readFile: "io_frame (quiet A) (readFile p)"
  by (auto simp: io_frame_def readFile_def quiet_refl split: option.splits node.splits)

lemma frame_stat: "io_frame (quiet A) (stat p)"
  by (auto simp: io_frame_def stat_def quiet_refl split: if_splits)

lemma frame_checkPathExists: "io_frame (quiet A) (checkPathExists p)"
  unfolding checkPathExists_def by (intro frame_catch frame_bind frame_stat frame_ret)

lemma frame_canonicalPath: "io_frame (quiet A) (canonicalPath E p)"
  by (auto simp: io_frame_def canonicalPath_def Let_def quiet_refl)

lemma frame_mkdir: "io_frame (quiet A) (mkdir E p)"
proof -
  have "fs_kept w (w\<lparr>fs := (\<lambda>q. if q = p \<or> is_under E q p then Some Dir else fs w q)\<rparr>)"
    if "\<not> is_file w p" "\<not> list_ex (is_file w) (ancestors E p)" for w
    unfolding fs_kept_def using that
    by (auto simp: is_file_def is_under_def list_ex_iff split: option.splits node.splits)
  then show ?thesis
    by (auto simp: io_frame_def mkdir_def quiet_def fs_kept_refl only_git_def split: if_splits)
qed


lemma io_bindE:
  assumes "io_bind m f w = (r, w')"
  obtains (throws) e where "m w = (Inl e, w')" "r = Inl e"
        | (returns) x w1 where "m w = (Inr x, w1)" "f x w1 = (r, w')"
proof -
  obtain r1 w1 where m: "m w = (r1, w1)" by (cases "m w")
  show ?thesis
  proof (cases r1)
    case (Inl e)
    then show ?thesis using assms m throws by (simp add: io_bind_def)
  next
    case (Inr x)
    then show ?thesis using assms m returns by (simp add: io_bind_def)
  qed
qed

lemma io_bind_returns: "m w = (Inr x, w1) \<Longrightarrow> io_bind m f w = f x w1"
  by (simp add: io_bind_def)

lemma io_bind_throws: "m w = (Inl e, w1) \<Longrightarrow> io_bind m f w = (Inl e, w1)"
  by (simp add: io_bind_def)

lemma frameD: "io_frame R m \<Longrightarrow> m w = (r, w') \<Longrightarrow> R w w'"
  by (simp add: io_frame_def)

lemma read_marker:
  assumes "io_catch (io_bind (readFile p) (\<lambda>v. io_ret (trim v))) (\<lambda>_. io_ret []) w = (r, w')"
  shows "w' = w \<and> (\<exists>existing. r = Inr existing
            \<and> (existing = [] \<longrightarrow> (\<forall>c. fs w p = Some (File c) \<longrightarrow> trim c = [])))"
  using assms
  by (auto simp: io_catch_def io_bind_def readFile_def io_ret_def split: option.splits node.splits)

lemma mkdir_files:
  assumes "io_catch (mkdir E p) (\<lambda>_. io_ret ()) w = (r, w')"
  shows "quiet A w w' \<and> (\<forall>q c. fs w' q = Some (File c) \<longrightarrow> fs w q = Some (File c))"
proof -
  have "io_frame (quiet A) (io_catch (mkdir E p) (\<lambda>_. io_ret ()))"
    by (intro frame_catch frame_mkdir frame_ret)
  then have "quiet A w w'" using assms frameD by blast
  moreover have "\<forall>q c. fs w' q = Some (File c) \<longrightarrow> fs w q = Some (File c)"
    using assms by (auto simp: io_catch_def mkdir_def io_ret_def split: if_splits)
  ultimately show ?thesis by blast
qed

lemma write_marker:
  assumes "\<forall>c. fs w p = Some (File c) \<longrightarrow> trim c = []"
      and "io_catch (writeFile E p content) (\<lambda>_. io_ret ()) w = (r, w')"
  shows "quiet A w w'"
  using assms
  by (auto simp: io_catch_def writeFile_def io_ret_def quiet_def fs_kept_def only_git_def
      split: if_splits)

lemma io_ifE:
  assumes "(if c then a else b) w = (r, w')"
  obtains (yes) "c" "a w = (r, w')" | (no) "\<not> c" "b w = (r, w')"
  using assms by (cases c) auto

lemma runGit_fs:
  assumes "runGitCommandOrThrow E cwd args fb w = (r, w')"
  shows "fs w' = fs w"
  using assms
  by (auto simp: runGitCommandOrThrow_def runGitCommand_def io_bind_def execGit_def
      io_ret_def io_throw_def Let_def split: if_splits)

lemma frame_ensureOpenCodeProjectId:
  "io_frame (quiet resolving) (ensureOpenCodeProjectId E primary)"
  unfolding io_frame_def
proof (intro allI impI)
  fix w r w'
  let ?gitDir = "path_join E [primary, ''.git'']"
  let ?idFile = "path_join E [?gitDir, ''opencode'']"
  have "resolving [''rev-list'', ''--max-parents=0'', ''--all'']" by (simp add: resolving_def)
  then have rev: "io_frame (quiet resolving) (runGitCommandOrThrow E primary
      [''rev-list'', ''--max-parents=0'', ''--all''] ''Failed to resolve repository roots'')"
    by (rule frame_runGitCommandOrThrow)
  assume "ensureOpenCodeProjectId E primary w = (r, w')"
  then show "quiet resolving w w'"
    unfolding ensureOpenCodeProjectId_def Let_def
  proof (cases rule: io_bindE)
    case (throws e)
    then show ?thesis using read_marker by blast
  next
    case (returns existing w1)
    then have w1: "w1 = w"
      and blank: "existing = [] \<longrightarrow> (\<forall>c. fs w ?idFile = Some (File c) \<longrightarrow> trim c = [])"
      using read_marker[of ?idFile w "Inr existing" w1] by auto
    from returns(2) show ?thesis
    proof (cases rule: io_ifE)
      case yes
      then show ?thesis using w1 by (simp add: io_ret_def quiet_refl)
    next
      case no
      from no(2) show ?thesis
      proof (cases rule: io_bindE)
        case (throws e)
        then show ?thesis using rev frameD w1 by blast
      next
        case (returns rootsResult w2)
        then have q2: "quiet resolving w w2"
          using rev frameD w1 by blast
        have fs2: "fs w2 = fs w" using returns(1) w1 runGit_fs by blast
        from returns(2) show ?thesis
        proof (cases rule: io_ifE)
          case yes
          then show ?thesis using q2 by (simp add: io_throw_def)
        next
          case no
          from no(2) show ?thesis
          proof (cases rule: io_bindE)
            case (throws e)
            then show ?thesis using mkdir_files q2 quiet_trans by blast
          next
            case (returns u w3)
            then have q3: "quiet resolving w2 w3"
              and f3: "\<forall>q c. fs w3 q = Some (File c) \<longrightarrow> fs w2 q = Some (File c)"
              using mkdir_files[of E ?gitDir w2 "Inr u" w3] by auto
            have blank3: "\<forall>c. fs w3 ?idFile = Some (File c) \<longrightarrow> trim c = []"
              using f3 fs2 blank \<open>\<not> existing \<noteq> []\<close> by auto
            from returns(2) show ?thesis
            proof (cases rule: io_bindE)
              case (throws e)
              then show ?thesis using write_marker[OF blank3] q2 q3 quiet_trans by blast
            next
              case (returns u2 w4)
              then have "quiet resolving w3 w4" using write_marker[OF blank3] by blast
              moreover have "w' = w4" using returns(2) by (simp add: io_ret_def)
              ultimately show ?thesis using q2 q3 quiet_trans by blast
            qed
          qed
        qed
      qed
    qed
  qed
qed

lemma frame_resolveWorktreeProjectContext:
  "io_frame (quiet resolving) (resolveWorktreeProjectContext E directory)"
  unfolding resolveWorktreeProjectContext_def Let_def
  by (intro frame_if frame_throw frame_bind frame_runGitCommandOrThrow frame_ret
        frame_ensureOpenCodeProjectId)
     (simp_all add: resolving_def)


lemma io_bind_app:
  "io_bind m f w = (case m w of (Inl e, w') \<Rightarrow> (Inl e, w') | (Inr x, w') \<Rightarrow> f x w')"
  by (simp add: io_bind_def)

lemma io_catch_app:
  "io_catch m h w = (case m w of (Inl e, w') \<Rightarrow> h e w' | (Inr x, w') \<Rightarrow> (Inr x, w'))"
  by (simp add: io_catch_def)

lemma io_ret_app: "io_ret x w = (Inr x, w)"
  by (simp add: io_ret_def)

lemma io_throw_app: "io_throw e w = (Inl e, w)"
  by (simp add: io_throw_def)

lemmas io_app = io_bind_app io_catch_app io_ret_app io_throw_app

lemma canonicalPath_cases:
  obtains s where "canonicalPath E p w = (Inr s, w)"
  by (simp add: canonicalPath_def Let_def)

text \<open>
  Evaluating the service on a concrete world: the continuation of a bind is only
  simplified once the bound computation has run.
\<close>

lemma io_bind_weak_cong: "m = m' \<Longrightarrow> io_bind m f = io_bind m' f" by simp
lemma io_catch_weak_cong: "m = m' \<Longrightarrow> io_catch m h = io_catch m' h" by simp

lemmas io_cong = io_bind_weak_cong io_catch_weak_cong let_weak_cong

lemmas eval_defs =
  resolveWorktreeProjectContext_def normalizeDirectoryPath_def trim_def js_space_def
  runGitCommandOrThrow_def runGitCommand_def execGit_def normalizePath_def posix_env_def
  repo_git_def answer_def io_app Let_def ensureOpenCodeProjectId_def readFile_def
  repo_world_def empty_world_def join_slash_def resolve_slash_def dirname_slash_def
  sort_by_def mkdir_def writeFile_def join_lines_def getOpenCodeDataPath_def
  is_file_def ancestors_def is_under_def canonicalPath_def

section \<open>Properties of removing a worktree\<close>

text \<open>
  C7. When the target directory is given, the project context resolves, and the
  canonical path of the target equals that of the primary worktree, \<open>removeWorktree\<close>
  throws the fixed error whatever else the payload holds, and leaves the world as the
  resolution of the context left it: all git calls made are \<open>rev-parse\<close> and \<open>rev-list\<close>
  (no worktree and no branch is removed), every directory and every file is still
  there, and no file that was not blank has changed (no metadata entry is removed).
\<close>

theorem removeWorktree_primary_refused:
  assumes "normalizeDirectoryPath E (rm_directory input) \<noteq> []"
      and "fst (resolveWorktreeProjectContext E directory w) = Inr context"
      and "fst (canonicalPath E (normalizeDirectoryPath E (rm_directory input))
                  (snd (resolveWorktreeProjectContext E directory w)))
           = fst (canonicalPath E (primaryWorktree context)
                  (snd (resolveWorktreeProjectContext E directory w)))"
  shows "removeWorktree E directory input w =
           (Inl (Error ''Cannot remove the primary workspace''),
            snd (resolveWorktreeProjectContext E directory w))
         \<and> quiet resolving w (snd (removeWorktree E directory input w))"
proof -
  let ?t = "normalizeDirectoryPath E (rm_directory input)"
  obtain w1 where c: "resolveWorktreeProjectContext E directory w = (Inr context, w1)"
    using assms(2) by (metis prod.collapse)
  then have w1: "snd (resolveWorktreeProjectContext E directory w) = w1" by simp
  obtain s where s: "canonicalPath E ?t w1 = (Inr s, w1)" by (rule canonicalPath_cases)
  obtain s' where s': "canonicalPath E (primaryWorktree context) w1 = (Inr s', w1)"
    by (rule canonicalPath_cases)
  have eq: "s = s'" using assms(3) s s' w1 by simp
  have r: "removeWorktree E directory input w =
           (Inl (Error ''Cannot remove the primary workspace''), w1)"
    unfolding removeWorktree_def Let_def
    using assms(1) eq
    by (simp add: io_app c s s')
  have "quiet resolving w w1"
    using frame_resolveWorktreeProjectContext c frameD by blast
  then show ?thesis using r w1 by simp
qed

text \<open>In the example repository, removing \<open>/repo\<close> itself is refused.\<close>

theorem removeWorktree_primary_refused_witness:
  "fst (removeWorktree (posix_env False repo_git) ''/repo''
          \<lparr>rm_directory = ''/repo'', rm_deleteLocalBranch = True\<rparr> repo_world)
     = Inl (Error ''Cannot remove the primary workspace'')
   \<and> quiet resolving repo_world
        (snd (removeWorktree (posix_env False repo_git) ''/repo''
                \<lparr>rm_directory = ''/repo'', rm_deleteLocalBranch = True\<rparr> repo_world))"
proof -
  let ?E = "posix_env False repo_git"
  let ?input = "\<lparr>rm_directory = ''/repo'', rm_deleteLocalBranch = True\<rparr>"
  let ?ctx = "\<lparr>projectID = ''a1'', sandbox = ''/repo'', primaryWorktree = ''/repo'',
               worktreeRoot = ''/home/u/.local/share/opencode/worktree/a1''\<rparr>"
  have 1: "normalizeDirectoryPath ?E (rm_directory ?input) \<noteq> []"
    by (simp add: eval_defs)
  have 2: "fst (resolveWorktreeProjectContext ?E ''/repo'' repo_world) = Inr ?ctx"
    by (simp add: eval_defs cong: io_cong)
  have 3: "fst (canonicalPath ?E (normalizeDirectoryPath ?E (rm_directory ?input))
                  (snd (resolveWorktreeProjectContext ?E ''/repo'' repo_world)))
           = fst (canonicalPath ?E (primaryWorktree ?ctx)
                  (snd (resolveWorktreeProjectContext ?E ''/repo'' repo_world)))"
    by (simp add: eval_defs cong: io_cong)
  show ?thesis using removeWorktree_primary_refused[OF 1 2 3] by (metis fst_conv)
qed



















section \<open>Properties of the validation of a creation request\<close>































































section \<open>Properties of the candidate names\<close>

lemma pickRandom_in: "values \<noteq> [] \<Longrightarrow> pickRandom values r \<in> set values"
  by (simp add: pickRandom_def)

lemma generateOpenCodeRandomName_shape:
  "\<exists>a \<in> set OPENCODE_ADJECTIVES. \<exists>n \<in> set OPENCODE_NOUNS.
     generateOpenCodeRandomName d = a @ ''-'' @ n"
proof -
  have "pickRandom OPENCODE_ADJECTIVES (fst d) \<in> set OPENCODE_ADJECTIVES"
    by (rule pickRandom_in) (simp add: OPENCODE_ADJECTIVES_def)
  moreover have "pickRandom OPENCODE_NOUNS (snd d) \<in> set OPENCODE_NOUNS"
    by (rule pickRandom_in) (simp add: OPENCODE_NOUNS_def)
  ultimately show ?thesis
    unfolding generateOpenCodeRandomName_def by blast
qed

lemma candidates_length: "length (resolveWorktreeNameCandidates E base) = 26"
  by (simp add: resolveWorktreeNameCandidates_def Let_def OPENCODE_WORKTREE_ATTEMPTS_def)

lemma candidates_named:
  assumes "slugWorktreeName base \<noteq> []"
  shows "resolveWorktreeNameCandidates E base
           = slugWorktreeName base
             # map (\<lambda>i. slugWorktreeName base @ ''-'' @ generateOpenCodeRandomName (draws E i)) [1..<26]"
proof -
  have "[0..<26] = 0 # [1..<26]"
    by (simp add: upt_conv_Cons)
  then show ?thesis
    using assms
    by (simp add: resolveWorktreeNameCandidates_def Let_def OPENCODE_WORKTREE_ATTEMPTS_def)
qed

lemma candidates_unnamed:
  assumes "slugWorktreeName base = []"
  shows "resolveWorktreeNameCandidates E base
           = map (\<lambda>i. generateOpenCodeRandomName (draws E i)) [0..<26]"
  using assms
  by (simp add: resolveWorktreeNameCandidates_def Let_def OPENCODE_WORKTREE_ATTEMPTS_def)

lemma branch_found_now:
  assumes "branch_found E primary w b"
  shows "exitCode (git E w (normalizePath E primary,
           [''show-ref'', ''--verify'', ''--quiet'', ''refs/heads/'' @ b])) = 0"
  using assms[unfolded branch_found_def, rule_format, of "[]"] by simp

lemma branch_missing_now:
  assumes "branch_missing E primary w b"
  shows "exitCode (git E w (normalizePath E primary,
           [''show-ref'', ''--verify'', ''--quiet'', ''refs/heads/'' @ b])) \<noteq> 0"
  using assms[unfolded branch_missing_def, rule_format, of "[]"] by simp

lemma branch_found_later:
  "branch_found E primary w b \<Longrightarrow> branch_found E primary (w\<lparr>gitLog := gitLog w @ cs\<rparr>) b"
  unfolding branch_found_def
proof
  fix cs'
  assume a: "\<forall>cs. exitCode (git E (w\<lparr>gitLog := gitLog w @ cs\<rparr>)
                   (normalizePath E primary,
                    [''show-ref'', ''--verify'', ''--quiet'', ''refs/heads/'' @ b])) = 0"
  show "exitCode (git E (w\<lparr>gitLog := gitLog w @ cs, gitLog := gitLog (w\<lparr>gitLog := gitLog w @ cs\<rparr>) @ cs'\<rparr>)
                   (normalizePath E primary,
                    [''show-ref'', ''--verify'', ''--quiet'', ''refs/heads/'' @ b])) = 0"
    using a[rule_format, of "cs @ cs'"] by simp
qed

lemma branch_missing_later:
  "branch_missing E primary w b \<Longrightarrow> branch_missing E primary (w\<lparr>gitLog := gitLog w @ cs\<rparr>) b"
  unfolding branch_missing_def
proof
  fix cs'
  assume a: "\<forall>cs. exitCode (git E (w\<lparr>gitLog := gitLog w @ cs\<rparr>)
                   (normalizePath E primary,
                    [''show-ref'', ''--verify'', ''--quiet'', ''refs/heads/'' @ b])) \<noteq> 0"
  show "exitCode (git E (w\<lparr>gitLog := gitLog w @ cs, gitLog := gitLog (w\<lparr>gitLog := gitLog w @ cs\<rparr>) @ cs'\<rparr>)
                   (normalizePath E primary,
                    [''show-ref'', ''--verify'', ''--quiet'', ''refs/heads/'' @ b])) \<noteq> 0"
    using a[rule_format, of "cs @ cs'"] by simp
qed

lemma candidate_taken_later:
  "candidate_taken E root ex primary w nm
     \<Longrightarrow> candidate_taken E root ex primary (w\<lparr>gitLog := gitLog w @ cs\<rparr>) nm"
  unfolding candidate_taken_def using branch_found_later by auto

lemma candidate_free_later:
  "candidate_free E root ex primary w nm
     \<Longrightarrow> candidate_free E root ex primary (w\<lparr>gitLog := gitLog w @ cs\<rparr>) nm"
  unfolding candidate_free_def using branch_missing_later by auto

lemma checkPathExists_value:
  "checkPathExists p w = (Inr (fs w p \<noteq> None), w)"
  by (simp add: checkPathExists_def stat_def io_app)

lemma tryCandidates_free:
  assumes "candidate_free E root ex primary w nm"
  shows "fst (tryCandidates E root ex primary (nm # rest) w)
           = Inr \<lparr>cand_name = nm, cand_directory = path_join E [root, nm],
                   cand_branch = (if ex \<noteq> [] then ex else ''openchamber/'' @ nm)\<rparr>"
proof -
  have d: "fs w (path_join E [root, nm]) = None"
    using assms by (simp add: candidate_free_def)
  show ?thesis
  proof (cases "ex = []")
    case False
    then show ?thesis
      by (simp add: io_bind_app[of "checkPathExists (path_join E [root, nm])"]
            checkPathExists_value d io_ret_app)
  next
    case True
    then have "exitCode (git E w (normalizePath E primary,
           [''show-ref'', ''--verify'', ''--quiet'', ''refs/heads/'' @ (''openchamber/'' @ nm)])) \<noteq> 0"
      using assms branch_missing_now[of E primary w "''openchamber/'' @ nm"]
      by (simp add: candidate_free_def)
    then show ?thesis
      using True
      by (simp add: io_bind_app[of "checkPathExists (path_join E [root, nm])"]
            checkPathExists_value d runGitCommand_def execGit_def io_app Let_def)
  qed
qed

lemma tryCandidates_step:
  assumes "candidate_taken E root ex primary w nm"
  shows "\<exists>cs. tryCandidates E root ex primary (nm # rest) w
                = tryCandidates E root ex primary rest (w\<lparr>gitLog := gitLog w @ cs\<rparr>)"
proof (cases "fs w (path_join E [root, nm]) \<noteq> None")
  case True
  then have "tryCandidates E root ex primary (nm # rest) w
               = tryCandidates E root ex primary rest (w\<lparr>gitLog := gitLog w @ []\<rparr>)"
    by (simp add: io_bind_app[of "checkPathExists (path_join E [root, nm])"] checkPathExists_value)
  then show ?thesis by blast
next
  case False
  then have e: "ex = []" and b: "branch_found E primary w (''openchamber/'' @ nm)"
    using assms by (auto simp: candidate_taken_def)
  have "tryCandidates E root ex primary (nm # rest) w
          = tryCandidates E root ex primary rest
              (w\<lparr>gitLog := gitLog w @ [(normalizePath E primary,
                  [''show-ref'', ''--verify'', ''--quiet'', ''refs/heads/'' @ (''openchamber/'' @ nm)])]\<rparr>)"
    using False e branch_found_now[OF b]
    by (simp add: io_bind_app[of "checkPathExists (path_join E [root, nm])"]
          checkPathExists_value runGitCommand_def execGit_def io_app Let_def)
  then show ?thesis by blast
qed

lemma tryCandidates_first_free:
  assumes "list_all (candidate_taken E root ex primary w) pre"
      and "candidate_free E root ex primary w nm"
  shows "fst (tryCandidates E root ex primary (pre @ nm # rest) w)
           = Inr \<lparr>cand_name = nm, cand_directory = path_join E [root, nm],
                   cand_branch = (if ex \<noteq> [] then ex else ''openchamber/'' @ nm)\<rparr>"
  using assms
proof (induction pre arbitrary: w)
  case Nil
  then show ?case using tryCandidates_free[of E root ex primary w nm rest] by simp
next
  case (Cons x pre)
  obtain cs where s: "tryCandidates E root ex primary (x # (pre @ nm # rest)) w
                = tryCandidates E root ex primary (pre @ nm # rest) (w\<lparr>gitLog := gitLog w @ cs\<rparr>)"
    using tryCandidates_step[of E root ex primary w x "pre @ nm # rest"] Cons.prems(1) by auto
  have "list_all (candidate_taken E root ex primary (w\<lparr>gitLog := gitLog w @ cs\<rparr>)) pre"
    using Cons.prems(1) candidate_taken_later[of E root ex primary w _ cs]
    by (auto simp: list_all_iff)
  moreover have "candidate_free E root ex primary (w\<lparr>gitLog := gitLog w @ cs\<rparr>) nm"
    using Cons.prems(2) by (rule candidate_free_later)
  ultimately show ?case
    using Cons.IH[of "w\<lparr>gitLog := gitLog w @ cs\<rparr>"] s by simp
qed

lemma tryCandidates_exhausted:
  assumes "list_all (candidate_taken E root ex primary w) names"
  shows "fst (tryCandidates E root ex primary names w)
           = Inl (Error ''Failed to generate a unique worktree name'')"
  using assms
proof (induction names arbitrary: w)
  case Nil
  then show ?case by (simp add: io_throw_app)
next
  case (Cons x names)
  obtain cs where s: "tryCandidates E root ex primary (x # names) w
                = tryCandidates E root ex primary names (w\<lparr>gitLog := gitLog w @ cs\<rparr>)"
    using tryCandidates_step[of E root ex primary w x names] Cons.prems(1) by auto
  have "list_all (candidate_taken E root ex primary (w\<lparr>gitLog := gitLog w @ cs\<rparr>)) names"
    using Cons.prems(1) candidate_taken_later[of E root ex primary w _ cs]
    by (auto simp: list_all_iff)
  then show ?case
    using Cons.IH[of "w\<lparr>gitLog := gitLog w @ cs\<rparr>"] s by simp
qed

lemma tryCandidates_result:
  assumes "tryCandidates E root ex primary names w = (Inr c, w')"
  shows "cand_name c \<in> set names
         \<and> cand_directory c = path_join E [root, cand_name c]
         \<and> cand_branch c = (if ex \<noteq> [] then ex else ''openchamber/'' @ cand_name c)
         \<and> fs w (cand_directory c) = None"
  using assms
proof (induction names arbitrary: w)
  case Nil
  then show ?case by (simp add: io_throw_app)
next
  case (Cons x names)
  show ?case
  proof (cases "fs w (path_join E [root, x]) \<noteq> None")
    case True
    then have eq: "tryCandidates E root ex primary (x # names) w = tryCandidates E root ex primary names w"
      by (simp add: io_bind_app[of "checkPathExists (path_join E [root, x])"] checkPathExists_value)
    show ?thesis using Cons.IH[OF Cons.prems[unfolded eq]] by auto
  next
    case False
    show ?thesis
    proof (cases "ex \<noteq> []")
      case True
      then have eq: "tryCandidates E root ex primary (x # names) w
                 = (Inr \<lparr>cand_name = x, cand_directory = path_join E [root, x], cand_branch = ex\<rparr>, w)"
        using False
        by (simp add: io_bind_app[of "checkPathExists (path_join E [root, x])"] checkPathExists_value
              io_ret_app)
      have "c = \<lparr>cand_name = x, cand_directory = path_join E [root, x], cand_branch = ex\<rparr>"
        using Cons.prems[unfolded eq] by simp
      then show ?thesis using True False by simp
    next
      case ex: False
      let ?call = "(normalizePath E primary,
                  [''show-ref'', ''--verify'', ''--quiet'', ''refs/heads/'' @ (''openchamber/'' @ x)])"
      let ?w1 = "w\<lparr>gitLog := gitLog w @ [?call]\<rparr>"
      show ?thesis
      proof (cases "exitCode (git E w ?call) = 0")
        case True
        then have eq: "tryCandidates E root ex primary (x # names) w
                     = tryCandidates E root ex primary names ?w1"
          using False ex
          by (simp add: io_bind_app[of "checkPathExists (path_join E [root, x])"]
                checkPathExists_value runGitCommand_def execGit_def io_app Let_def)
        show ?thesis using Cons.IH[OF Cons.prems[unfolded eq]] by auto
      next
        case nz: False
        then have eq: "tryCandidates E root ex primary (x # names) w
                 = (Inr \<lparr>cand_name = x, cand_directory = path_join E [root, x],
                          cand_branch = ''openchamber/'' @ x\<rparr>, ?w1)"
          using False ex
          by (simp add: io_bind_app[of "checkPathExists (path_join E [root, x])"]
                checkPathExists_value runGitCommand_def execGit_def io_app Let_def)
        have "c = \<lparr>cand_name = x, cand_directory = path_join E [root, x],
                          cand_branch = ''openchamber/'' @ x\<rparr>"
          using Cons.prems[unfolded eq] by simp
        then show ?thesis using ex False by simp
      qed
    qed
  qed
qed

lemma yields_ret: "Q x \<Longrightarrow> io_yields Q (io_ret x)"
  by (simp add: io_yields_def io_ret_def)

lemma yields_throw: "io_yields Q (io_throw e)"
  by (simp add: io_yields_def io_throw_def)

lemma yields_bind:
  assumes "io_yields P m" "\<And>x. P x \<Longrightarrow> io_yields Q (f x)"
  shows "io_yields Q (io_bind m f)"
  unfolding io_yields_def
proof (intro allI impI)
  fix w y w'
  assume "io_bind m f w = (Inr y, w')"
  then show "Q y"
  proof (cases rule: io_bindE)
    case (throws e)
    then show ?thesis by simp
  next
    case (returns x w1)
    have "P x" using assms(1) returns(1) unfolding io_yields_def by blast
    then have "io_yields Q (f x)" by (rule assms(2))
    then show ?thesis using returns(2) unfolding io_yields_def by blast
  qed
qed

lemma yields_any: "io_yields (\<lambda>_. True) m"
  by (simp add: io_yields_def)

lemma yields_bind_any:
  assumes "\<And>x. io_yields Q (f x)"
  shows "io_yields Q (io_bind m f)"
  using yields_bind[of "\<lambda>_. True" m Q f] assms yields_any by blast

lemma yields_if:
  "(c \<Longrightarrow> io_yields Q a) \<Longrightarrow> (\<not> c \<Longrightarrow> io_yields Q b) \<Longrightarrow> io_yields Q (if c then a else b)"
  by simp

lemma yields_case_option:
  "(v = None \<Longrightarrow> io_yields Q a) \<Longrightarrow> (\<And>x. v = Some x \<Longrightarrow> io_yields Q (b x))
     \<Longrightarrow> io_yields Q (case v of None \<Rightarrow> a | Some x \<Rightarrow> b x)"
  by (cases v) simp_all

lemma yields_case_prod3:
  "(\<And>a b c. x = (a, b, c) \<Longrightarrow> io_yields Q (f a b c))
     \<Longrightarrow> io_yields Q (case x of (a, b, c) \<Rightarrow> f a b c)"
  by (cases x) simp

lemma yieldsD: "io_yields Q m \<Longrightarrow> m w = (Inr x, w') \<Longrightarrow> Q x"
  by (auto simp: io_yields_def)

lemma createNew_branch:
  "io_yields (\<lambda>r. fst r = cand_branch cand) (createNew E ctx cand startRef)"
  unfolding createNew_def Let_def
  by (intro yields_if yields_throw yields_bind_any yields_case_option yields_ret) simp

lemma createWorktreeAt_candidate:
  "io_yields (\<lambda>info. info_name info = cand_name cand \<and> info_path info = cand_directory cand
                     \<and> info_branch info = cand_branch cand)
     (createWorktreeAt E ctx payload ''new'' cand b startRef ern eru)"
proof -
  have ne: "(''new'' = ''existing'') = False" by simp
  show ?thesis
    unfolding createWorktreeAt_def ne if_False
    apply (rule yields_bind[OF createNew_branch])
    apply (rule yields_case_prod3)
    apply (intro yields_bind_any)
    apply (rule yields_ret)
    apply simp
    done
qed

lemma createWorktree_candidate:
  assumes mode: "in_mode payload \<noteq> ''existing''"
      and r: "fst (createWorktree E directory payload w) = Inr info"
  shows "\<exists>ctx w2 w3. fst (resolveWorktreeProjectContext E directory w) = Inr ctx
            \<and> mkdir E (worktreeRoot ctx) (snd (resolveWorktreeProjectContext E directory w)) = (Inr (), w2)
            \<and> resolveCandidateDirectory E (worktreeRoot ctx)
                 (trim (if in_worktreeName payload \<noteq> [] then in_worktreeName payload else in_name payload))
                 (cleanBranchName (trim (in_branchName payload))) (primaryWorktree ctx) w2
               = (Inr \<lparr>cand_name = info_name info, cand_directory = info_path info,
                        cand_branch = info_branch info\<rparr>, w3)"
proof -
  have m: "(if in_mode payload = ''existing'' then ''existing'' else ''new'') = ''new''"
    using mode by simp
  have ex: "(if ''new'' = ''new'' \<and> cleanBranchName (trim (in_branchName payload)) \<noteq> []
             then cleanBranchName (trim (in_branchName payload)) else [])
            = cleanBranchName (trim (in_branchName payload))"
    by simp
  obtain w' where r': "createWorktree E directory payload w = (Inr info, w')"
    using r by (cases "createWorktree E directory payload w") simp
  from r'[unfolded createWorktree_def Let_def m ex] show ?thesis
  proof (cases rule: io_bindE)
    case (throws e)
    then show ?thesis by simp
  next
    case (returns ctx w1)
    from returns(2) show ?thesis
    proof (cases rule: io_bindE)
      case (throws e)
      then show ?thesis by simp
    next
      case mk: (returns u w2)
      from mk(2) show ?thesis
      proof (cases rule: io_bindE)
        case (throws e)
        then show ?thesis by simp
      next
        case sel: (returns cand w3)
        have "info_name info = cand_name cand \<and> info_path info = cand_directory cand
                     \<and> info_branch info = cand_branch cand"
          using yieldsD[OF createWorktreeAt_candidate sel(2)] .
        then have "cand = \<lparr>cand_name = info_name info, cand_directory = info_path info,
                        cand_branch = info_branch info\<rparr>"
          by simp
        then show ?thesis
          using returns(1) mk(1) sel(1) by auto
      qed
    qed
  qed
qed

lemma candidates_tl_shape:
  assumes "slugWorktreeName base \<noteq> []"
      and "nm \<in> set (tl (resolveWorktreeNameCandidates E base))"
  shows "\<exists>a \<in> set OPENCODE_ADJECTIVES. \<exists>n \<in> set OPENCODE_NOUNS.
           nm = slugWorktreeName base @ ''-'' @ a @ ''-'' @ n"
proof -
  obtain i where "nm = slugWorktreeName base @ ''-'' @ generateOpenCodeRandomName (draws E i)"
    using assms by (auto simp: candidates_named)
  then show ?thesis
    using generateOpenCodeRandomName_shape[of "draws E i"] by auto
qed

lemma candidates_random_shape:
  assumes "slugWorktreeName base = []"
      and "nm \<in> set (resolveWorktreeNameCandidates E base)"
  shows "\<exists>a \<in> set OPENCODE_ADJECTIVES. \<exists>n \<in> set OPENCODE_NOUNS. nm = a @ ''-'' @ n"
proof -
  obtain i where "nm = generateOpenCodeRandomName (draws E i)"
    using assms by (auto simp: candidates_unnamed)
  then show ?thesis
    using generateOpenCodeRandomName_shape[of "draws E i"] by auto
qed

text \<open>
  C2 (amended). \<open>resolveWorktreeNameCandidates\<close> gives 26 candidate names. When the slug
  of the preferred name is not empty, the first is the bare slug and every other one is
  \<open>slug-adjective-noun\<close>, the words taken from the two fixed lists; when the slug is empty
  (no preferred name, or one with no allowed character), all 26 are \<open>adjective-noun\<close>.
  \<open>resolveCandidateDirectory\<close> accepts the first candidate that is free, all the ones
  before it being taken: its directory does not exist and, when no branch name is given,
  its branch \<open>openchamber/name\<close> is not a local branch; the branch of the candidate is the
  given branch name, or else \<open>openchamber/name\<close>. When all 26 are taken it throws
  \<open>Failed to generate a unique worktree name\<close>. In \<open>new\<close> mode the name, the path and the
  branch that \<open>createWorktree\<close> returns are those of the candidate accepted for the trimmed
  \<open>worktreeName\<close> (or else \<open>name\<close>) and the cleaned \<open>branchName\<close>, in the worktree root of the
  project, after that root was created.
\<close>

theorem createWorktree_candidates:
  "length (resolveWorktreeNameCandidates E base) = 26
   \<and> (slugWorktreeName base \<noteq> [] \<longrightarrow>
        hd (resolveWorktreeNameCandidates E base) = slugWorktreeName base
        \<and> (\<forall>c \<in> set (tl (resolveWorktreeNameCandidates E base)).
              \<exists>a \<in> set OPENCODE_ADJECTIVES. \<exists>n \<in> set OPENCODE_NOUNS.
                c = slugWorktreeName base @ ''-'' @ a @ ''-'' @ n))
   \<and> (slugWorktreeName base = [] \<longrightarrow>
        (\<forall>c \<in> set (resolveWorktreeNameCandidates E base).
              \<exists>a \<in> set OPENCODE_ADJECTIVES. \<exists>n \<in> set OPENCODE_NOUNS. c = a @ ''-'' @ n))
   \<and> (resolveWorktreeNameCandidates E base = pre @ nm # rest
        \<and> list_all (candidate_taken E root explicitBranchName primary u) pre
        \<and> candidate_free E root explicitBranchName primary u nm \<longrightarrow>
        fst (resolveCandidateDirectory E root base explicitBranchName primary u)
          = Inr \<lparr>cand_name = nm, cand_directory = path_join E [root, nm],
                  cand_branch = (if explicitBranchName \<noteq> [] then explicitBranchName
                                 else ''openchamber/'' @ nm)\<rparr>)
   \<and> (list_all (candidate_taken E root explicitBranchName primary u)
          (resolveWorktreeNameCandidates E base) \<longrightarrow>
        fst (resolveCandidateDirectory E root base explicitBranchName primary u)
          = Inl (Error ''Failed to generate a unique worktree name''))
   \<and> (in_mode payload \<noteq> ''existing''
        \<and> fst (createWorktree E directory payload w) = Inr info \<longrightarrow>
        (\<exists>ctx w2 w3.
            fst (resolveWorktreeProjectContext E directory w) = Inr ctx
            \<and> mkdir E (worktreeRoot ctx) (snd (resolveWorktreeProjectContext E directory w))
                = (Inr (), w2)
            \<and> resolveCandidateDirectory E (worktreeRoot ctx)
                 (trim (if in_worktreeName payload \<noteq> [] then in_worktreeName payload
                        else in_name payload))
                 (cleanBranchName (trim (in_branchName payload))) (primaryWorktree ctx) w2
               = (Inr \<lparr>cand_name = info_name info, cand_directory = info_path info,
                        cand_branch = info_branch info\<rparr>, w3)))"
proof (intro conjI impI ballI)
  show "length (resolveWorktreeNameCandidates E base) = 26"
    by (rule candidates_length)
next
  assume "slugWorktreeName base \<noteq> []"
  then show "hd (resolveWorktreeNameCandidates E base) = slugWorktreeName base"
    by (simp add: candidates_named)
next
  fix c
  assume "slugWorktreeName base \<noteq> []" "c \<in> set (tl (resolveWorktreeNameCandidates E base))"
  then show "\<exists>a \<in> set OPENCODE_ADJECTIVES. \<exists>n \<in> set OPENCODE_NOUNS.
                c = slugWorktreeName base @ ''-'' @ a @ ''-'' @ n"
    by (rule candidates_tl_shape)
next
  fix c
  assume "slugWorktreeName base = []" "c \<in> set (resolveWorktreeNameCandidates E base)"
  then show "\<exists>a \<in> set OPENCODE_ADJECTIVES. \<exists>n \<in> set OPENCODE_NOUNS. c = a @ ''-'' @ n"
    by (rule candidates_random_shape)
next
  assume a: "resolveWorktreeNameCandidates E base = pre @ nm # rest
        \<and> list_all (candidate_taken E root explicitBranchName primary u) pre
        \<and> candidate_free E root explicitBranchName primary u nm"
  then show "fst (resolveCandidateDirectory E root base explicitBranchName primary u)
          = Inr \<lparr>cand_name = nm, cand_directory = path_join E [root, nm],
                  cand_branch = (if explicitBranchName \<noteq> [] then explicitBranchName
                                 else ''openchamber/'' @ nm)\<rparr>"
    using tryCandidates_first_free[of E root explicitBranchName primary u pre nm rest]
    by (simp add: resolveCandidateDirectory_def)
next
  assume "list_all (candidate_taken E root explicitBranchName primary u)
          (resolveWorktreeNameCandidates E base)"
  then show "fst (resolveCandidateDirectory E root base explicitBranchName primary u)
          = Inl (Error ''Failed to generate a unique worktree name'')"
    unfolding resolveCandidateDirectory_def by (rule tryCandidates_exhausted)
next
  assume "in_mode payload \<noteq> ''existing''
        \<and> fst (createWorktree E directory payload w) = Inr info"
  then show "\<exists>ctx w2 w3.
            fst (resolveWorktreeProjectContext E directory w) = Inr ctx
            \<and> mkdir E (worktreeRoot ctx) (snd (resolveWorktreeProjectContext E directory w))
                = (Inr (), w2)
            \<and> resolveCandidateDirectory E (worktreeRoot ctx)
                 (trim (if in_worktreeName payload \<noteq> [] then in_worktreeName payload
                        else in_name payload))
                 (cleanBranchName (trim (in_branchName payload))) (primaryWorktree ctx) w2
               = (Inr \<lparr>cand_name = info_name info, cand_directory = info_path info,
                        cand_branch = info_branch info\<rparr>, w3)"
    using createWorktree_candidate[of payload E directory w info] by blast
qed

lemma slug_demo: "slugWorktreeName ''demo'' = ''demo''"
  by code_simp

lemma slug_empty: "slugWorktreeName [] = []"
  by code_simp

lemma parse_HEAD: "parseRemoteBranchRef ''HEAD'' = None"
  by (subst parseRemoteBranchRef.simps) (simp add: Let_def trim_def js_space_def splitRemoteRef_def)

lemma second_draw:
  "generateOpenCodeRandomName (draws (posix_env False g) 1) = ''calm-canyon''"
  by (simp add: generateOpenCodeRandomName_def pickRandom_def posix_env_def
        OPENCODE_ADJECTIVES_def OPENCODE_NOUNS_def)

lemma first_draw:
  "generateOpenCodeRandomName (draws (posix_env False g) 0) = ''brave-cabin''"
  by (simp add: generateOpenCodeRandomName_def pickRandom_def posix_env_def
        OPENCODE_ADJECTIVES_def OPENCODE_NOUNS_def)

lemma names_demo:
  "resolveWorktreeNameCandidates (posix_env False g) ''demo''
     = ''demo'' # ''demo-calm-canyon''
       # map (\<lambda>i. ''demo'' @ ''-'' @ generateOpenCodeRandomName (draws (posix_env False g) i)) [2..<26]"
proof -
  have "[1..<26] = 1 # [2..<26]"
    by (simp add: upt_conv_Cons)
  then show ?thesis
    using second_draw[of g] by (simp add: candidates_named slug_demo)
qed

lemma names_empty:
  "resolveWorktreeNameCandidates (posix_env False g) []
     = ''brave-cabin''
       # map (\<lambda>i. generateOpenCodeRandomName (draws (posix_env False g) i)) [1..<26]"
proof -
  have "[0..<26] = 0 # [1..<26]"
    by (simp add: upt_conv_Cons)
  then show ?thesis
    using first_draw[of g] by (simp add: candidates_unnamed slug_empty)
qed

lemma slug_marks: "slugWorktreeName ''!!!'' = []"
  by code_simp

lemma names_marks:
  "resolveWorktreeNameCandidates (posix_env False g) ''!!!''
     = ''brave-cabin''
       # map (\<lambda>i. generateOpenCodeRandomName (draws (posix_env False g) i)) [1..<26]"
proof -
  have "[0..<26] = 0 # [1..<26]"
    by (simp add: upt_conv_Cons)
  then show ?thesis
    using first_draw[of g] by (simp add: candidates_unnamed slug_marks)
qed

lemmas eval_create =
  createWorktree_def createWorktreeAt_def createNew_def resolveCandidateDirectory_def
  findBranchInUse_def syncProjectSandboxAdd_def updateProjectSandboxes_def
  queueWorktreeStartScripts_def new_payload_def normalizeStartRef_def cleanBranchName_def
  or_empty_def listWorktreeEntries_def parseWorktreePorcelain_def porcelain_line_def
  push_current_def checkPathExists_def stat_def getProjectStoragePath_def lines_parse_def
  lines_stringify_def clean_sandboxes_def unique_first_def console_log_def error_message_def
  parse_HEAD

lemma create_demo:
  "fst (createWorktree (posix_env False repo_git) ''/repo'' (new_payload ''demo'' []) repo_world)
     = Inr \<lparr>info_head = ''c0ffee'', info_name = ''demo'', info_branch = ''openchamber/demo'',
             info_path = ''/home/u/.local/share/opencode/worktree/a1/demo''\<rparr>"
  by (simp add: eval_defs eval_create names_demo[unfolded posix_env_def] cong: io_cong)

text \<open>
  With \<open>demo\<close> as the preferred name: \<open>demo\<close> is accepted where nothing is taken;
  \<open>demo-calm-canyon\<close>, the second candidate, where the directory of \<open>demo\<close> exists; the
  error is thrown where git finds every branch; and \<open>createWorktree\<close> in the example
  repository accepts \<open>demo\<close> with the branch \<open>openchamber/demo\<close>.
\<close>

theorem createWorktree_candidates_witness:
  "hd (resolveWorktreeNameCandidates (posix_env False repo_git) ''demo'') = ''demo''
   \<and> fst (resolveCandidateDirectory (posix_env False repo_git) ''/wt'' ''demo'' [] ''/repo'' repo_world)
       = Inr \<lparr>cand_name = ''demo'', cand_directory = ''/wt/demo'', cand_branch = ''openchamber/demo''\<rparr>
   \<and> fst (resolveCandidateDirectory (posix_env False repo_git) ''/wt'' ''demo'' [] ''/repo''
            (repo_world\<lparr>fs := (fs repo_world)(''/wt/demo'' \<mapsto> Dir)\<rparr>))
       = Inr \<lparr>cand_name = ''demo-calm-canyon'', cand_directory = ''/wt/demo-calm-canyon'',
               cand_branch = ''openchamber/demo-calm-canyon''\<rparr>
   \<and> fst (resolveCandidateDirectory (posix_env False silent_git) ''/wt'' ''demo'' [] ''/repo'' repo_world)
       = Inl (Error ''Failed to generate a unique worktree name'')
   \<and> (\<exists>a \<in> set OPENCODE_ADJECTIVES. \<exists>n \<in> set OPENCODE_NOUNS.
         hd (resolveWorktreeNameCandidates (posix_env False repo_git) []) = a @ ''-'' @ n)
   \<and> (\<exists>(ctx :: project_context) w2 w3.
         mkdir (posix_env False repo_git) (worktreeRoot ctx)
            (snd (resolveWorktreeProjectContext (posix_env False repo_git) ''/repo'' repo_world))
           = (Inr (), w2)
         \<and> resolveCandidateDirectory (posix_env False repo_git) (worktreeRoot ctx) ''demo'' []
              (primaryWorktree ctx) w2
            = (Inr \<lparr>cand_name = ''demo'',
                     cand_directory = ''/home/u/.local/share/opencode/worktree/a1/demo'',
                     cand_branch = ''openchamber/demo''\<rparr>, w3))"
proof -
  let ?E = "posix_env False repo_git"
  let ?S = "posix_env False silent_git"
  let ?p = "new_payload ''demo'' []"
  let ?info = "\<lparr>info_head = ''c0ffee'', info_name = ''demo'', info_branch = ''openchamber/demo'',
             info_path = ''/home/u/.local/share/opencode/worktree/a1/demo''\<rparr>"
  let ?taken = "repo_world\<lparr>fs := (fs repo_world)(''/wt/demo'' \<mapsto> Dir)\<rparr>"
  let ?rest = "map (\<lambda>i. ''demo'' @ ''-'' @ generateOpenCodeRandomName (draws ?E i)) [2..<26]"
  have slug: "slugWorktreeName ''demo'' \<noteq> []"
    by (simp add: slug_demo)
  have n1: "resolveWorktreeNameCandidates ?E ''demo'' = [] @ ''demo'' # (''demo-calm-canyon'' # ?rest)"
    by (simp add: names_demo)
  have n2: "resolveWorktreeNameCandidates ?E ''demo'' = [''demo''] @ ''demo-calm-canyon'' # ?rest"
    by (simp add: names_demo)
  have f1: "candidate_free ?E ''/wt'' [] ''/repo'' repo_world ''demo''"
    by (simp add: candidate_free_def branch_missing_def eval_defs)
  have t2: "list_all (candidate_taken ?E ''/wt'' [] ''/repo'' ?taken) [''demo'']"
    by (simp add: candidate_taken_def eval_defs)
  have f2: "candidate_free ?E ''/wt'' [] ''/repo'' ?taken ''demo-calm-canyon''"
    by (simp add: candidate_free_def branch_missing_def eval_defs)
  have t3: "list_all (candidate_taken ?S ''/wt'' [] ''/repo'' repo_world)
              (resolveWorktreeNameCandidates ?S ''demo'')"
    by (simp add: candidate_taken_def branch_found_def list_all_iff posix_env_def silent_git_def
          answer_def)
  have e: "slugWorktreeName [] = []"
    by (rule slug_empty)
  have h: "hd (resolveWorktreeNameCandidates ?E []) \<in> set (resolveWorktreeNameCandidates ?E [])"
    by (simp add: names_empty)
  have m: "in_mode ?p \<noteq> ''existing''"
    by (simp add: new_payload_def)
  have pn: "trim (if in_worktreeName ?p \<noteq> [] then in_worktreeName ?p else in_name ?p) = ''demo''"
    by (simp add: new_payload_def trim_def js_space_def)
  have pb: "cleanBranchName (trim (in_branchName ?p)) = []"
    by (simp add: new_payload_def trim_def cleanBranchName_def)
  have j: "path_join ?E [''/wt'', ''demo''] = ''/wt/demo''
           \<and> path_join ?E [''/wt'', ''demo-calm-canyon''] = ''/wt/demo-calm-canyon''"
    by (simp add: eval_defs)
  note T1 = createWorktree_candidates[where E = ?E and base = "''demo''" and pre = "[]"
              and nm = "''demo''" and rest = "''demo-calm-canyon'' # ?rest" and root = "''/wt''"
              and explicitBranchName = "[]" and primary = "''/repo''" and u = repo_world
              and payload = ?p and directory = "''/repo''" and w = repo_world and info = ?info]
  note T2 = createWorktree_candidates[where E = ?E and base = "''demo''" and pre = "[''demo'']"
              and nm = "''demo-calm-canyon''" and rest = ?rest and root = "''/wt''"
              and explicitBranchName = "[]" and primary = "''/repo''" and u = ?taken]
  note T3 = createWorktree_candidates[where E = ?S and base = "''demo''" and root = "''/wt''"
              and explicitBranchName = "[]" and primary = "''/repo''" and u = repo_world]
  note T4 = createWorktree_candidates[where E = ?E and base = "[]"]
  have 1: "hd (resolveWorktreeNameCandidates ?E ''demo'') = ''demo''"
    using T1 slug by (simp add: slug_demo)
  have 2: "fst (resolveCandidateDirectory ?E ''/wt'' ''demo'' [] ''/repo'' repo_world)
       = Inr \<lparr>cand_name = ''demo'', cand_directory = ''/wt/demo'', cand_branch = ''openchamber/demo''\<rparr>"
    using T1 n1 f1 j by simp
  have 3: "fst (resolveCandidateDirectory ?E ''/wt'' ''demo'' [] ''/repo'' ?taken)
       = Inr \<lparr>cand_name = ''demo-calm-canyon'', cand_directory = ''/wt/demo-calm-canyon'',
               cand_branch = ''openchamber/demo-calm-canyon''\<rparr>"
    using T2 n2 t2 f2 j by simp
  have 4: "fst (resolveCandidateDirectory ?S ''/wt'' ''demo'' [] ''/repo'' repo_world)
       = Inl (Error ''Failed to generate a unique worktree name'')"
    using T3 t3 by blast
  have 5: "\<exists>a \<in> set OPENCODE_ADJECTIVES. \<exists>n \<in> set OPENCODE_NOUNS.
         hd (resolveWorktreeNameCandidates ?E []) = a @ ''-'' @ n"
    using T4 e h by blast
  have 6: "\<exists>(ctx :: project_context) w2 w3.
         mkdir ?E (worktreeRoot ctx) (snd (resolveWorktreeProjectContext ?E ''/repo'' repo_world))
           = (Inr (), w2)
         \<and> resolveCandidateDirectory ?E (worktreeRoot ctx) ''demo'' [] (primaryWorktree ctx) w2
            = (Inr \<lparr>cand_name = ''demo'',
                     cand_directory = ''/home/u/.local/share/opencode/worktree/a1/demo'',
                     cand_branch = ''openchamber/demo''\<rparr>, w3)"
  proof -
    note D = T1[THEN conjunct2, THEN conjunct2, THEN conjunct2, THEN conjunct2, THEN conjunct2,
               rule_format, OF conjI[OF m create_demo]]
    show ?thesis
      using D[unfolded pn pb] by simp blast
  qed
  show ?thesis
    using 1 2 3 4 5 6 by blast
qed

text \<open>
  With no preferred name, and with the preferred name \<open>!!!\<close>, the slug is empty; the first
  candidate is then \<open>brave-cabin\<close>, not the bare slug, and \<open>createWorktree\<close> returns that
  name.
\<close>

theorem createWorktree_unnamed_counterexample:
  "slugWorktreeName [] = [] \<and> slugWorktreeName ''!!!'' = []
   \<and> hd (resolveWorktreeNameCandidates (posix_env False repo_git) []) = ''brave-cabin''
   \<and> hd (resolveWorktreeNameCandidates (posix_env False repo_git) ''!!!'') = ''brave-cabin''
   \<and> fst (createWorktree (posix_env False repo_git) ''/repo'' (new_payload [] []) repo_world)
       = Inr \<lparr>info_head = ''c0ffee'', info_name = ''brave-cabin'',
               info_branch = ''openchamber/brave-cabin'',
               info_path = ''/home/u/.local/share/opencode/worktree/a1/brave-cabin''\<rparr>
   \<and> fst (createWorktree (posix_env False repo_git) ''/repo'' (new_payload ''!!!'' []) repo_world)
       = Inr \<lparr>info_head = ''c0ffee'', info_name = ''brave-cabin'',
               info_branch = ''openchamber/brave-cabin'',
               info_path = ''/home/u/.local/share/opencode/worktree/a1/brave-cabin''\<rparr>"
proof -
  have "fst (createWorktree (posix_env False repo_git) ''/repo'' (new_payload [] []) repo_world)
       = Inr \<lparr>info_head = ''c0ffee'', info_name = ''brave-cabin'',
               info_branch = ''openchamber/brave-cabin'',
               info_path = ''/home/u/.local/share/opencode/worktree/a1/brave-cabin''\<rparr>"
    by (simp add: eval_defs eval_create names_empty[unfolded posix_env_def] cong: io_cong)
  moreover have "fst (createWorktree (posix_env False repo_git) ''/repo'' (new_payload ''!!!'' []) repo_world)
       = Inr \<lparr>info_head = ''c0ffee'', info_name = ''brave-cabin'',
               info_branch = ''openchamber/brave-cabin'',
               info_path = ''/home/u/.local/share/opencode/worktree/a1/brave-cabin''\<rparr>"
    by (simp add: eval_defs eval_create names_marks[unfolded posix_env_def] cong: io_cong)
  ultimately show ?thesis
    by (simp add: slug_empty slug_marks names_empty names_marks)
qed

end
